theory Spec2Isabelle
  imports Main "HOL-Library.Monad_Syntax"
begin

section \<open>JavaScript values and the built-ins the server calls\<close>

text \<open>
  The request handlers of \<^verbatim>\<open>server/routes.ts\<close> receive JSON request bodies and the text
  answered by the language model. A JSON value is a tree; the representation of numbers is
  left open (type \<open>'n\<close>), since the handlers only ask a number whether it is an integer
  and how it prints. A string is a list of characters, one \<open>char\<close> for each UTF-16 code
  unit that JavaScript counts in \<^verbatim>\<open>length\<close> and \<^verbatim>\<open>substring\<close>.
  An object is the list of its own properties, the first binding of a key being its value.
\<close>

datatype 'n json =
    JNull
  | JBool bool
  | JNum 'n
  | JStr string
  | JArr "'n json list"
  | JObj "(string \<times> 'n json) list"

type_synonym timestamp = int

text \<open>A JavaScript \<^verbatim>\<open>Date\<close>: a time value, or the Invalid Date.\<close>

datatype Date = Date timestamp | Invalid_Date

text \<open>
  The built-ins of the platform and two facts about the database connection are
  parameters of the model:
  \<^item> \<open>JSON_parse\<close> is \<^verbatim>\<open>JSON.parse\<close>, \<open>None\<close> when it throws a SyntaxError;
  \<^item> \<open>Number_int n\<close> is \<open>Some k\<close> when \<^verbatim>\<open>Number.isInteger(n)\<close> holds and \<open>n\<close> is the
    integer \<open>k\<close> (so \<open>Some 0\<close> exactly for the two zeros);
  \<^item> \<open>Number_toString\<close> is \<^verbatim>\<open>String(n)\<close> on numbers;
  \<^item> \<open>new_Date s\<close> is \<^verbatim>\<open>new Date(s)\<close> on a string;
  \<^item> \<open>parseInt\<close> is \<^verbatim>\<open>parseInt\<close> on a string, \<open>None\<close> for \<^verbatim>\<open>NaN\<close>;
  \<^item> \<open>driver_text v\<close> is the text that the database driver sends for an array or an
    object bound to a text column;
  \<^item> \<open>timestamp_accepted t\<close> tells whether the database takes the ISO string of the time
    value \<open>t\<close> as a timestamp.
\<close>

record 'n runtime =
  JSON_parse :: "string \<Rightarrow> 'n json option"
  Number_int :: "'n \<Rightarrow> int option"
  Number_toString :: "'n \<Rightarrow> string"
  new_Date :: "string \<Rightarrow> Date"
  parseInt :: "string \<Rightarrow> int option"
  driver_text :: "'n json \<Rightarrow> string"
  timestamp_accepted :: "timestamp \<Rightarrow> bool"

text \<open>Property access \<^verbatim>\<open>v.key\<close> on a value that is not \<^verbatim>\<open>null\<close>: \<open>None\<close> is
  \<^verbatim>\<open>undefined\<close>. Only objects carry the keys the handlers read.\<close>

fun getProp :: "'n json \<Rightarrow> string \<Rightarrow> 'n json option" where
  "getProp (JObj kvs) k = map_of kvs k"
| "getProp _ k = None"

text \<open>Truthiness, as \<^verbatim>\<open>||\<close>, \<^verbatim>\<open>if\<close> and \<^verbatim>\<open>?:\<close> test it.\<close>

fun truthy :: "'n runtime \<Rightarrow> 'n json option \<Rightarrow> bool" where
  "truthy js None = False"
| "truthy js (Some JNull) = False"
| "truthy js (Some (JBool b)) = b"
| "truthy js (Some (JNum n)) = (Number_int js n \<noteq> Some 0)"
| "truthy js (Some (JStr s)) = (s \<noteq> [])"
| "truthy js (Some (JArr xs)) = True"
| "truthy js (Some (JObj kvs)) = True"

text \<open>\<^verbatim>\<open>v || d\<close> for a default \<open>d\<close> that is a value.\<close>

definition orElse :: "'n runtime \<Rightarrow> 'n json option \<Rightarrow> 'n json \<Rightarrow> 'n json" where
  "orElse js v d = (case v of None \<Rightarrow> d | Some x \<Rightarrow> if truthy js (Some x) then x else d)"

text \<open>
  \<^verbatim>\<open>String(v)\<close>. An array prints its elements joined by commas, \<^verbatim>\<open>null\<close> elements as
  the empty string. A parsed object prints as \<^verbatim>\<open>[object Object]\<close> unless it has an own
  property \<^verbatim>\<open>toString\<close>, which JSON cannot make callable: then the conversion throws
  a TypeError (\<open>None\<close>).
\<close>

fun ToString :: "'n runtime \<Rightarrow> 'n json \<Rightarrow> string option"
  and join :: "'n runtime \<Rightarrow> 'n json list \<Rightarrow> string option"
  and element :: "'n runtime \<Rightarrow> 'n json \<Rightarrow> string option" where
  "ToString js JNull = Some ''null''"
| "ToString js (JBool b) = Some (if b then ''true'' else ''false'')"
| "ToString js (JNum n) = Some (Number_toString js n)"
| "ToString js (JStr s) = Some s"
| "ToString js (JArr xs) = join js xs"
| "ToString js (JObj kvs) =
     (if map_of kvs ''toString'' \<noteq> None then None else Some ''[object Object]'')"
| "join js [] = Some ''''"
| "join js [x] = element js x"
| "join js (x # y # ys) =
     (case element js x of
        None \<Rightarrow> None
      | Some a \<Rightarrow> (case join js (y # ys) of None \<Rightarrow> None | Some b \<Rightarrow> Some (a @ '','' @ b)))"
| "element js JNull = Some ''''"
| "element js (JBool b) = ToString js (JBool b)"
| "element js (JNum n) = ToString js (JNum n)"
| "element js (JStr s) = ToString js (JStr s)"
| "element js (JArr xs) = ToString js (JArr xs)"
| "element js (JObj kvs) = ToString js (JObj kvs)"

text \<open>\<^verbatim>\<open>s.substring(0, n)\<close>.\<close>

definition substring0 :: "nat \<Rightarrow> string \<Rightarrow> string" where
  "substring0 n s = take n s"

text \<open>
  \<^verbatim>\<open>content.match(/\[[\s\S]*\]/)\<close>: the match starts at the first \<^verbatim>\<open>[\<close> and, the star
  being greedy, ends at the last \<^verbatim>\<open>]\<close> behind it; there is none when no \<^verbatim>\<open>]\<close> follows
  the first \<^verbatim>\<open>[\<close>.
\<close>

definition bracketMatch :: "string \<Rightarrow> string option" where
  "bracketMatch content =
     (let r = dropWhile (\<lambda>c. c \<noteq> CHR ''['') content in
      if r = [] then None
      else let body = rev (dropWhile (\<lambda>c. c \<noteq> CHR '']'') (rev (tl r))) in
           if body = [] then None else Some (CHR ''['' # body))"

section \<open>The tables of \<^verbatim>\<open>shared/schema.ts\<close>\<close>

datatype role = Student | Admin
datatype priority = Low | Medium | High
datatype task_status = Pending | In_progress | Completed

text \<open>
  One record for each table, a field for each column, \<open>None\<close> for SQL \<^verbatim>\<open>NULL\<close>.
  The field names carry the table as a prefix, since the tables share column names.
  The table \<^verbatim>\<open>users\<close> belongs to the authentication module; the handlers read its
  columns \<^verbatim>\<open>id\<close> and \<^verbatim>\<open>email\<close> only.
\<close>

record User =
  user_id :: string
  user_email :: "string option"

record UserProfile =
  profile_id :: int
  profile_userId :: string
  profile_role :: role
  profile_studyGoal :: "string option"
  profile_preferredSubjects :: "string option"
  profile_dailyStudyTarget :: "int option"

record Task =
  task_id :: int
  task_userId :: string
  task_title :: string
  task_description :: "string option"
  task_subject :: "string option"
  task_priority :: priority
  task_status :: task_status
  task_dueDate :: "timestamp option"
  task_estimatedMinutes :: "int option"
  task_completedAt :: "timestamp option"
  task_createdAt :: timestamp

record PomodoroSession =
  session_id :: int
  session_userId :: string
  session_taskId :: "int option"
  session_duration :: int
  session_breakDuration :: int
  session_completed :: bool
  session_startedAt :: timestamp
  session_endedAt :: "timestamp option"

record StudyRecommendation =
  rec_id :: int
  rec_userId :: string
  rec_title :: string
  rec_description :: string
  rec_subject :: "string option"
  rec_type :: string
  rec_priority :: string
  rec_dismissed :: bool
  rec_createdAt :: timestamp

record FileUpload =
  file_id :: int
  file_userId :: string
  file_filename :: string
  file_originalName :: string
  file_mimeType :: string
  file_size :: int
  file_taskId :: "int option"
  file_createdAt :: timestamp

record Notification =
  notif_id :: int
  notif_userId :: string
  notif_title :: string
  notif_message :: string
  notif_type :: string
  notif_read :: bool
  notif_createdAt :: timestamp

text \<open>
  The state of the server: the tables (rows in insertion order), the next value of each
  \<^verbatim>\<open>serial\<close> column, the names of the files in the upload directory, and the
  environment variable that holds the AI credential.
\<close>

record state =
  users :: "User list"
  userProfiles :: "UserProfile list"
  tasks :: "Task list"
  pomodoroSessions :: "PomodoroSession list"
  studyRecommendations :: "StudyRecommendation list"
  fileUploads :: "FileUpload list"
  notifications :: "Notification list"
  seq_userProfiles :: int
  seq_tasks :: int
  seq_pomodoroSessions :: int
  seq_studyRecommendations :: int
  seq_fileUploads :: int
  seq_notifications :: int
  uploadDir :: "string set"
  AI_INTEGRATIONS_OPENAI_API_KEY :: "string option"

text \<open>
  What a request brings besides its payload: the authenticated caller
  (\<^verbatim>\<open>req.user.claims.sub\<close>, set by the authentication middleware before any handler
  runs), the server's clock (\<^verbatim>\<open>new Date()\<close>) and the database's clock
  (\<^verbatim>\<open>defaultNow()\<close>). The caller's id is the key of the caller's row in
  \<^verbatim>\<open>users\<close>, hence a text the database holds, and the two clocks show times the
  database takes.
\<close>

record ctx =
  sub :: string
  now :: timestamp
  dbNow :: timestamp

section \<open>The storage layer (\<^verbatim>\<open>server/storage.ts\<close>)\<close>

text \<open>
  Each method of \<^verbatim>\<open>DatabaseStorage\<close> is one statement on one table. An insert appends
  the row with the next value of the table's \<^verbatim>\<open>serial\<close>; an update maps over the rows;
  a delete filters them. A method throws, and its handler answers 500, when the query
  builder refuses the statement or the database refuses a value of the statement:
  \<^item> a number outside the 32-bit range, compared with or stored in an integer column
    (the ids are \<^verbatim>\<open>serial\<close> columns; the other integers that reach an insert are
    bounded by the request schemas);
  \<^item> a text that contains the character U+0000;
  \<^item> a \<^verbatim>\<open>Date\<close> that is invalid, or whose ISO string the database does not take;
  \<^item> \<^verbatim>\<open>NULL\<close> for a column that is declared \<^verbatim>\<open>notNull\<close>.
  A throw is the result \<open>None\<close> of the method. A lost connection is not part of the
  model, and neither is the end of a \<^verbatim>\<open>serial\<close>. The rows in the tables carry ids that
  the database issued, so the methods that are called with the id of a row that was just
  read (update and delete of a task, delete of a file, dismiss, mark as read) do not
  check the id again.
\<close>

definition int4 :: "int \<Rightarrow> bool" where
  "int4 i \<longleftrightarrow> - 2147483648 \<le> i \<and> i \<le> 2147483647"

definition pgText :: "string \<Rightarrow> bool" where
  "pgText t \<longleftrightarrow> CHR 0x00 \<notin> set t"

definition pgTextOrNull :: "string option \<Rightarrow> bool" where
  "pgTextOrNull v = (case v of None \<Rightarrow> True | Some t \<Rightarrow> pgText t)"

text \<open>
  The parameter that the driver sends for a value bound to a text column: \<open>None\<close> is
  \<^verbatim>\<open>NULL\<close>, a string is sent as it is, a number and a boolean as they print. (The
  driver encodes a string as UTF-8; a surrogate without its other half, which that
  encoding replaces, is left out of the model.)
\<close>

fun textParam :: "'n runtime \<Rightarrow> 'n json \<Rightarrow> string option" where
  "textParam js JNull = None"
| "textParam js (JBool b) = Some (if b then ''true'' else ''false'')"
| "textParam js (JNum n) = Some (Number_toString js n)"
| "textParam js (JStr t) = Some t"
| "textParam js (JArr xs) = Some (driver_text js (JArr xs))"
| "textParam js (JObj kvs) = Some (driver_text js (JObj kvs))"

text \<open>\<^verbatim>\<open>ORDER BY col DESC\<close>; rows with equal keys come in an order SQL leaves open.\<close>

definition orderByDesc :: "('a \<Rightarrow> int) \<Rightarrow> 'a list \<Rightarrow> 'a list" where
  "orderByDesc col rows = rev (sort_key col rows)"

text \<open>\<^verbatim>\<open>const [row] = await db.select()...\<close>: the first row, or \<^verbatim>\<open>undefined\<close>.\<close>

definition first :: "'a list \<Rightarrow> 'a option" where
  "first rows = (case rows of [] \<Rightarrow> None | r # _ \<Rightarrow> Some r)"

definition getProfile :: "state \<Rightarrow> string \<Rightarrow> UserProfile option" where
  "getProfile s userId = first (filter (\<lambda>p. profile_userId p = userId) (userProfiles s))"

text \<open>
  \<^verbatim>\<open>upsertProfile\<close> is only called with \<^verbatim>\<open>{ userId, role }\<close>. Without a row for the
  user it inserts one, the other columns at their defaults; on a conflict on
  \<^verbatim>\<open>user_id\<close> it sets the supplied columns of the existing row.
\<close>

definition upsertProfile :: "state \<Rightarrow> string \<Rightarrow> role \<Rightarrow> UserProfile option \<times> state" where
  "upsertProfile s userId r =
     (if \<exists>p \<in> set (userProfiles s). profile_userId p = userId
      then let rows = map (\<lambda>p. if profile_userId p = userId
                                 then p\<lparr>profile_userId := userId, profile_role := r\<rparr> else p)
                          (userProfiles s)
           in (first (filter (\<lambda>p. profile_userId p = userId) rows), s\<lparr>userProfiles := rows\<rparr>)
      else let p = \<lparr>profile_id = seq_userProfiles s, profile_userId = userId, profile_role = r,
                     profile_studyGoal = None, profile_preferredSubjects = None,
                     profile_dailyStudyTarget = Some 120\<rparr>
           in (Some p, s\<lparr>userProfiles := userProfiles s @ [p],
                          seq_userProfiles := seq_userProfiles s + 1\<rparr>))"

definition getAllProfiles :: "state \<Rightarrow> UserProfile list" where
  "getAllProfiles s = userProfiles s"

definition updateProfileRole :: "state \<Rightarrow> string \<Rightarrow> role \<Rightarrow> UserProfile option \<times> state" where
  "updateProfileRole s userId r =
     (let rows = map (\<lambda>p. if profile_userId p = userId then p\<lparr>profile_role := r\<rparr> else p)
                     (userProfiles s)
      in (first (filter (\<lambda>p. profile_userId p = userId) rows), s\<lparr>userProfiles := rows\<rparr>))"

definition getTasks :: "state \<Rightarrow> string \<Rightarrow> Task list" where
  "getTasks s userId = orderByDesc task_createdAt (filter (\<lambda>t. task_userId t = userId) (tasks s))"

definition getAllTasks :: "state \<Rightarrow> Task list" where
  "getAllTasks s = orderByDesc task_createdAt (tasks s)"

text \<open>\<^verbatim>\<open>getTask\<close> throws (\<open>None\<close>) for an id outside the range of the column; else it
  returns the row with the id, or \<^verbatim>\<open>undefined\<close> (\<open>Some None\<close>).\<close>

definition getTask :: "state \<Rightarrow> int \<Rightarrow> Task option option" where
  "getTask s i =
     (if int4 i then Some (first (filter (\<lambda>t. task_id t = i) (tasks s))) else None)"

text \<open>
  \<^verbatim>\<open>InsertTask\<close>: the columns of a task without \<^verbatim>\<open>id\<close>, \<^verbatim>\<open>createdAt\<close> and
  \<^verbatim>\<open>completedAt\<close>, which the insert schema omits.
\<close>

record InsertTask =
  it_userId :: string
  it_title :: string
  it_description :: "string option"
  it_subject :: "string option"
  it_priority :: priority
  it_status :: task_status
  it_dueDate :: "Date option"
  it_estimatedMinutes :: "int option"

text \<open>
  A timestamp column takes a \<^verbatim>\<open>Date\<close> through \<^verbatim>\<open>toISOString()\<close>, which throws a
  RangeError on the Invalid Date; the database then has to take the string (\<open>None\<close>
  when either fails).
\<close>

fun toColumn :: "'n runtime \<Rightarrow> Date option \<Rightarrow> timestamp option option" where
  "toColumn js None = Some None"
| "toColumn js (Some (Date t)) = (if timestamp_accepted js t then Some (Some t) else None)"
| "toColumn js (Some Invalid_Date) = None"

text \<open>
  \<^verbatim>\<open>createTask\<close> inserts the data as it gets them. The column \<^verbatim>\<open>completed_at\<close> has no
  default and is not among the data, so the new row holds \<^verbatim>\<open>NULL\<close> there.
\<close>

definition createTask ::
  "'n runtime \<Rightarrow> ctx \<Rightarrow> state \<Rightarrow> InsertTask \<Rightarrow> (Task \<times> state) option" where
  "createTask js c s d =
     (case toColumn js (it_dueDate d) of
        None \<Rightarrow> None
      | Some due \<Rightarrow>
          if \<not> (pgText (it_title d) \<and> pgTextOrNull (it_description d) \<and>
                 pgTextOrNull (it_subject d))
          then None
          else
            let t = \<lparr>task_id = seq_tasks s, task_userId = it_userId d, task_title = it_title d,
                     task_description = it_description d, task_subject = it_subject d,
                     task_priority = it_priority d, task_status = it_status d,
                     task_dueDate = due, task_estimatedMinutes = it_estimatedMinutes d,
                     task_completedAt = None, task_createdAt = dbNow c\<rparr>
            in Some (t, s\<lparr>tasks := tasks s @ [t], seq_tasks := seq_tasks s + 1\<rparr>))"

text \<open>
  The object given to \<^verbatim>\<open>.set(...)\<close> in \<^verbatim>\<open>updateTask\<close>: for each column \<open>None\<close> when
  the key is absent, else the value to store.
\<close>

record TaskSet =
  set_title :: "string option"
  set_description :: "string option option"
  set_subject :: "string option option"
  set_priority :: "priority option"
  set_status :: "task_status option"
  set_dueDate :: "Date option option"
  set_estimatedMinutes :: "int option option"
  set_completedAt :: "timestamp option"

definition noValues :: "TaskSet \<Rightarrow> bool" where
  "noValues u \<longleftrightarrow>
     set_title u = None \<and> set_description u = None \<and> set_subject u = None \<and>
     set_priority u = None \<and> set_status u = None \<and> set_dueDate u = None \<and>
     set_estimatedMinutes u = None \<and> set_completedAt u = None"

text \<open>The values that the database refuses in the object to set.\<close>

definition refused :: "'n runtime \<Rightarrow> TaskSet \<Rightarrow> bool" where
  "refused js u \<longleftrightarrow>
     (case set_title u of None \<Rightarrow> False | Some v \<Rightarrow> \<not> pgText v) \<or>
     (case set_description u of None \<Rightarrow> False | Some v \<Rightarrow> \<not> pgTextOrNull v) \<or>
     (case set_subject u of None \<Rightarrow> False | Some v \<Rightarrow> \<not> pgTextOrNull v) \<or>
     (case set_dueDate u of None \<Rightarrow> False | Some v \<Rightarrow> toColumn js v = None)"

definition applySet :: "'n runtime \<Rightarrow> TaskSet \<Rightarrow> Task \<Rightarrow> Task" where
  "applySet js u t =
     t\<lparr>task_title := (case set_title u of None \<Rightarrow> task_title t | Some v \<Rightarrow> v),
       task_description := (case set_description u of None \<Rightarrow> task_description t | Some v \<Rightarrow> v),
       task_subject := (case set_subject u of None \<Rightarrow> task_subject t | Some v \<Rightarrow> v),
       task_priority := (case set_priority u of None \<Rightarrow> task_priority t | Some v \<Rightarrow> v),
       task_status := (case set_status u of None \<Rightarrow> task_status t | Some v \<Rightarrow> v),
       task_dueDate :=
         (case set_dueDate u of None \<Rightarrow> task_dueDate t
          | Some v \<Rightarrow> (case toColumn js v of None \<Rightarrow> task_dueDate t | Some due \<Rightarrow> due)),
       task_estimatedMinutes :=
         (case set_estimatedMinutes u of None \<Rightarrow> task_estimatedMinutes t | Some v \<Rightarrow> v),
       task_completedAt := (case set_completedAt u of None \<Rightarrow> task_completedAt t | Some v \<Rightarrow> Some v)\<rparr>"

text \<open>
  \<^verbatim>\<open>updateTask\<close> copies the data, adds \<^verbatim>\<open>completedAt = new Date()\<close> when the data set
  the status to \<^verbatim>\<open>completed\<close>, and updates the rows with the id. The query builder
  throws (\<open>None\<close>) when the object to set has no value at all; the statement fails when
  the database refuses one of the values.
\<close>

definition updateTask ::
  "'n runtime \<Rightarrow> ctx \<Rightarrow> state \<Rightarrow> int \<Rightarrow> TaskSet \<Rightarrow> (Task option \<times> state) option" where
  "updateTask js c s i d =
     (let updateData = (if set_status d = Some Completed
                        then d\<lparr>set_completedAt := Some (now c)\<rparr> else d)
      in if noValues updateData then None
         else if refused js updateData then None
         else let rows = map (\<lambda>t. if task_id t = i then applySet js updateData t else t) (tasks s)
              in Some (first (filter (\<lambda>t. task_id t = i) rows), s\<lparr>tasks := rows\<rparr>))"

definition deleteTask :: "state \<Rightarrow> int \<Rightarrow> state" where
  "deleteTask s i = s\<lparr>tasks := filter (\<lambda>t. task_id t \<noteq> i) (tasks s)\<rparr>"

definition getPomodoroSessions :: "state \<Rightarrow> string \<Rightarrow> PomodoroSession list" where
  "getPomodoroSessions s userId =
     orderByDesc session_startedAt (filter (\<lambda>p. session_userId p = userId) (pomodoroSessions s))"

definition getAllPomodoroSessions :: "state \<Rightarrow> PomodoroSession list" where
  "getAllPomodoroSessions s = pomodoroSessions s"

record InsertPomodoro =
  ip_userId :: string
  ip_taskId :: "int option"
  ip_duration :: int
  ip_breakDuration :: int
  ip_completed :: bool

definition createPomodoroSession ::
  "ctx \<Rightarrow> state \<Rightarrow> InsertPomodoro \<Rightarrow> PomodoroSession \<times> state" where
  "createPomodoroSession c s d =
     (let p = \<lparr>session_id = seq_pomodoroSessions s, session_userId = ip_userId d,
               session_taskId = ip_taskId d, session_duration = ip_duration d,
               session_breakDuration = ip_breakDuration d, session_completed = ip_completed d,
               session_startedAt = dbNow c,
               session_endedAt = (if ip_completed d then Some (now c) else None)\<rparr>
      in (p, s\<lparr>pomodoroSessions := pomodoroSessions s @ [p],
                seq_pomodoroSessions := seq_pomodoroSessions s + 1\<rparr>))"

definition getRecommendations :: "state \<Rightarrow> string \<Rightarrow> StudyRecommendation list" where
  "getRecommendations s userId =
     orderByDesc rec_createdAt (filter (\<lambda>r. rec_userId r = userId) (studyRecommendations s))"

record 'n InsertRecommendation =
  ir_userId :: string
  ir_title :: string
  ir_description :: string
  ir_subject :: "'n json"
  ir_type :: "'n json"
  ir_priority :: "'n json"
  ir_dismissed :: bool

text \<open>
  The columns \<^verbatim>\<open>subject\<close>, \<^verbatim>\<open>type\<close> and \<^verbatim>\<open>priority\<close> of a recommendation are
  text columns, and the handler hands over whatever value it read from the model's
  answer: the row holds the text that the driver sends for the value. The insert fails
  when \<^verbatim>\<open>type\<close> or \<^verbatim>\<open>priority\<close> would be \<^verbatim>\<open>NULL\<close> and when one of the five texts
  is refused.
\<close>

definition createRecommendation ::
  "'n runtime \<Rightarrow> ctx \<Rightarrow> state \<Rightarrow> 'n InsertRecommendation \<Rightarrow>
   (StudyRecommendation \<times> state) option" where
  "createRecommendation js c s d =
     (case textParam js (ir_type d) of
        None \<Rightarrow> None
      | Some ty \<Rightarrow>
          (case textParam js (ir_priority d) of
             None \<Rightarrow> None
           | Some pr \<Rightarrow>
               if \<not> (pgText (ir_title d) \<and> pgText (ir_description d) \<and>
                      pgTextOrNull (textParam js (ir_subject d)) \<and> pgText ty \<and> pgText pr)
               then None
               else
                 let r = \<lparr>rec_id = seq_studyRecommendations s, rec_userId = ir_userId d,
                          rec_title = ir_title d, rec_description = ir_description d,
                          rec_subject = textParam js (ir_subject d), rec_type = ty,
                          rec_priority = pr, rec_dismissed = ir_dismissed d,
                          rec_createdAt = dbNow c\<rparr>
                 in Some (r, s\<lparr>studyRecommendations := studyRecommendations s @ [r],
                              seq_studyRecommendations := seq_studyRecommendations s + 1\<rparr>)))"

definition dismissRecommendation :: "state \<Rightarrow> int \<Rightarrow> state" where
  "dismissRecommendation s i =
     s\<lparr>studyRecommendations :=
         map (\<lambda>r. if rec_id r = i then r\<lparr>rec_dismissed := True\<rparr> else r) (studyRecommendations s)\<rparr>"

definition getFiles :: "state \<Rightarrow> string \<Rightarrow> FileUpload list" where
  "getFiles s userId =
     orderByDesc file_createdAt (filter (\<lambda>f. file_userId f = userId) (fileUploads s))"

text \<open>\<^verbatim>\<open>getFile\<close> throws (\<open>None\<close>) for an id outside the range of the column, as
  \<^verbatim>\<open>getTask\<close> does.\<close>

definition getFile :: "state \<Rightarrow> int \<Rightarrow> FileUpload option option" where
  "getFile s i =
     (if int4 i then Some (first (filter (\<lambda>f. file_id f = i) (fileUploads s))) else None)"

record InsertFileUpload =
  if_userId :: string
  if_filename :: string
  if_originalName :: string
  if_mimeType :: string
  if_size :: int
  if_taskId :: "int option"

definition createFile ::
  "ctx \<Rightarrow> state \<Rightarrow> InsertFileUpload \<Rightarrow> (FileUpload \<times> state) option" where
  "createFile c s d =
     (if \<not> (pgText (if_filename d) \<and> pgText (if_originalName d) \<and> pgText (if_mimeType d))
      then None
      else
        let f = \<lparr>file_id = seq_fileUploads s, file_userId = if_userId d,
                 file_filename = if_filename d, file_originalName = if_originalName d,
                 file_mimeType = if_mimeType d, file_size = if_size d,
                 file_taskId = if_taskId d, file_createdAt = dbNow c\<rparr>
        in Some (f, s\<lparr>fileUploads := fileUploads s @ [f],
                     seq_fileUploads := seq_fileUploads s + 1\<rparr>))"

definition deleteFile :: "state \<Rightarrow> int \<Rightarrow> state" where
  "deleteFile s i = s\<lparr>fileUploads := filter (\<lambda>f. file_id f \<noteq> i) (fileUploads s)\<rparr>"

definition getNotifications :: "state \<Rightarrow> string \<Rightarrow> Notification list" where
  "getNotifications s userId =
     orderByDesc notif_createdAt (filter (\<lambda>n. notif_userId n = userId) (notifications s))"

text \<open>\<^verbatim>\<open>createNotification\<close> is part of the storage interface; no route calls it.\<close>

record InsertNotification =
  in_userId :: string
  in_title :: string
  in_message :: string
  in_type :: "string option"
  in_read :: "bool option"

definition createNotification ::
  "ctx \<Rightarrow> state \<Rightarrow> InsertNotification \<Rightarrow> Notification \<times> state" where
  "createNotification c s d =
     (let n = \<lparr>notif_id = seq_notifications s, notif_userId = in_userId d,
               notif_title = in_title d, notif_message = in_message d,
               notif_type = (case in_type d of None \<Rightarrow> ''info'' | Some t \<Rightarrow> t),
               notif_read = (case in_read d of None \<Rightarrow> False | Some b \<Rightarrow> b),
               notif_createdAt = dbNow c\<rparr>
      in (n, s\<lparr>notifications := notifications s @ [n],
                seq_notifications := seq_notifications s + 1\<rparr>))"

definition markNotificationRead :: "state \<Rightarrow> int \<Rightarrow> state" where
  "markNotificationRead s i =
     s\<lparr>notifications :=
         map (\<lambda>n. if notif_id n = i then n\<lparr>notif_read := True\<rparr> else n) (notifications s)\<rparr>"

definition markAllNotificationsRead :: "state \<Rightarrow> string \<Rightarrow> state" where
  "markAllNotificationsRead s userId =
     s\<lparr>notifications :=
         map (\<lambda>n. if notif_userId n = userId then n\<lparr>notif_read := True\<rparr> else n)
             (notifications s)\<rparr>"

section \<open>The request schemas (\<^verbatim>\<open>zod\<close>)\<close>

text \<open>
  A schema maps a JSON value to the parsed data, \<open>None\<close> when \<^verbatim>\<open>safeParse\<close> reports
  a failure. An object schema reads the keys it declares and drops every other key of the
  input. For an optional key \<open>None\<close> is "absent"; for a nullable one the next \<open>None\<close>
  is \<^verbatim>\<open>null\<close>.
\<close>

fun z_string :: "'n json \<Rightarrow> string option" where
  "z_string (JStr s) = Some s"
| "z_string _ = None"

definition z_string_min_max :: "nat \<Rightarrow> nat \<Rightarrow> 'n json \<Rightarrow> string option" where
  "z_string_min_max lo hi v =
     (case z_string v of
        None \<Rightarrow> None
      | Some s \<Rightarrow> if lo \<le> length s \<and> length s \<le> hi then Some s else None)"

fun z_enum :: "(string \<times> 'a) list \<Rightarrow> 'n json \<Rightarrow> 'a option" where
  "z_enum values (JStr s) = map_of values s"
| "z_enum values _ = None"

fun z_number_int :: "'n runtime \<Rightarrow> 'n json \<Rightarrow> int option" where
  "z_number_int js (JNum n) = Number_int js n"
| "z_number_int js _ = None"

definition z_number_int_min_max :: "'n runtime \<Rightarrow> int \<Rightarrow> int \<Rightarrow> 'n json \<Rightarrow> int option" where
  "z_number_int_min_max js lo hi v =
     (case z_number_int js v of
        None \<Rightarrow> None
      | Some k \<Rightarrow> if lo \<le> k \<and> k \<le> hi then Some k else None)"

fun z_boolean :: "'n json \<Rightarrow> bool option" where
  "z_boolean (JBool b) = Some b"
| "z_boolean _ = None"

fun required :: "('n json \<Rightarrow> 'a option) \<Rightarrow> 'n json option \<Rightarrow> 'a option" where
  "required schema None = None"
| "required schema (Some v) = schema v"

fun optional :: "('n json \<Rightarrow> 'a option) \<Rightarrow> 'n json option \<Rightarrow> 'a option option" where
  "optional schema None = Some None"
| "optional schema (Some v) = map_option Some (schema v)"

fun optional_nullable ::
  "('n json \<Rightarrow> 'a option) \<Rightarrow> 'n json option \<Rightarrow> 'a option option option" where
  "optional_nullable schema None = Some None"
| "optional_nullable schema (Some JNull) = Some (Some None)"
| "optional_nullable schema (Some v) = map_option (\<lambda>a. Some (Some a)) (schema v)"

fun z_object :: "'n json \<Rightarrow> bool" where
  "z_object (JObj kvs) = True"
| "z_object _ = False"

definition priorityValues :: "(string \<times> priority) list" where
  "priorityValues = [(''low'', Low), (''medium'', Medium), (''high'', High)]"

definition statusValues :: "(string \<times> task_status) list" where
  "statusValues = [(''pending'', Pending), (''in_progress'', In_progress), (''completed'', Completed)]"

definition roleValues :: "(string \<times> role) list" where
  "roleValues = [(''student'', Student), (''admin'', Admin)]"

text \<open>The data of \<^verbatim>\<open>taskCreateSchema\<close>, and of its \<^verbatim>\<open>.partial()\<close>, where the title
  is optional as well.\<close>

record TaskFields =
  description :: "string option option"
  subject :: "string option option"
  priority :: "priority option"
  status :: "task_status option"
  dueDate :: "string option option"
  estimatedMinutes :: "int option option"

record TaskCreate = TaskFields +
  title :: string

record TaskUpdate = TaskFields +
  title_opt :: "string option"

definition taskFields :: "'n runtime \<Rightarrow> 'n json \<Rightarrow> TaskFields option" where
  "taskFields js body = do {
     de \<leftarrow> optional_nullable (z_string_min_max 0 5000) (getProp body ''description'');
     su \<leftarrow> optional_nullable (z_string_min_max 0 200) (getProp body ''subject'');
     pr \<leftarrow> optional (z_enum priorityValues) (getProp body ''priority'');
     st \<leftarrow> optional (z_enum statusValues) (getProp body ''status'');
     du \<leftarrow> optional_nullable z_string (getProp body ''dueDate'');
     es \<leftarrow> optional_nullable (z_number_int_min_max js 1 1440) (getProp body ''estimatedMinutes'');
     Some \<lparr>description = de, subject = su, priority = pr, status = st, dueDate = du,
            estimatedMinutes = es\<rparr>
   }"

definition taskCreateSchema :: "'n runtime \<Rightarrow> 'n json \<Rightarrow> TaskCreate option" where
  "taskCreateSchema js body =
     (if \<not> z_object body then None
      else do {
        ti \<leftarrow> required (z_string_min_max 1 500) (getProp body ''title'');
        fs \<leftarrow> taskFields js body;
        Some (TaskFields.extend fs (TaskCreate.fields ti))
      })"

definition taskUpdateSchema :: "'n runtime \<Rightarrow> 'n json \<Rightarrow> TaskUpdate option" where
  "taskUpdateSchema js body =
     (if \<not> z_object body then None
      else do {
        ti \<leftarrow> optional (z_string_min_max 1 500) (getProp body ''title'');
        fs \<leftarrow> taskFields js body;
        Some (TaskFields.extend fs (TaskUpdate.fields ti))
      })"

record PomodoroCreate =
  taskId :: "int option option"
  duration :: int
  breakDuration :: int
  completed :: bool

definition pomodoroCreateSchema :: "'n runtime \<Rightarrow> 'n json \<Rightarrow> PomodoroCreate option" where
  "pomodoroCreateSchema js body =
     (if \<not> z_object body then None
      else do {
        ta \<leftarrow> optional_nullable (z_number_int js) (getProp body ''taskId'');
        du \<leftarrow> required (z_number_int_min_max js 1 120) (getProp body ''duration'');
        br \<leftarrow> required (z_number_int_min_max js 1 60) (getProp body ''breakDuration'');
        co \<leftarrow> required z_boolean (getProp body ''completed'');
        Some \<lparr>taskId = ta, duration = du, breakDuration = br, completed = co\<rparr>
      })"

definition roleUpdateSchema :: "'n json \<Rightarrow> role option" where
  "roleUpdateSchema body =
     (if \<not> z_object body then None else required (z_enum roleValues) (getProp body ''role''))"

section \<open>The request handlers (\<^verbatim>\<open>server/routes.ts\<close>)\<close>

text \<open>
  A handler maps the state to a response and the state it leaves. The response is the
  status code and the body; the field errors that come with a validation failure are not
  kept apart from its message.
\<close>

datatype body =
    Message string
  | No_body
  | Success
  | Json_profile "UserProfile option"
  | Json_task "Task option"
  | Json_tasks "Task list"
  | Json_session PomodoroSession
  | Json_sessions "PomodoroSession list"
  | Json_recommendations "StudyRecommendation list"
  | Json_file FileUpload
  | Json_files "FileUpload list"
  | Json_notifications "Notification list"
  | Json_stats nat nat nat nat int "(string \<times> nat \<times> nat) list"
  | Json_users "(User \<times> role) list"
  | Send_file string string string

type_synonym response = "nat \<times> body"

definition GET_profile :: "ctx \<Rightarrow> state \<Rightarrow> response \<times> state" where
  "GET_profile c s =
     (let userId = sub c in
      case getProfile s userId of
        Some profile \<Rightarrow> ((200, Json_profile (Some profile)), s)
      | None \<Rightarrow> (let (profile, s') = upsertProfile s userId Student
                 in ((200, Json_profile profile), s')))"

definition GET_tasks :: "ctx \<Rightarrow> state \<Rightarrow> response \<times> state" where
  "GET_tasks c s = ((200, Json_tasks (getTasks s (sub c))), s)"

text \<open>\<^verbatim>\<open>x || null\<close> on an optional, nullable string or number of the parsed data.\<close>

fun string_or_null :: "string option option \<Rightarrow> string option" where
  "string_or_null (Some (Some v)) = (if v \<noteq> [] then Some v else None)"
| "string_or_null _ = None"

fun int_or_null :: "int option option \<Rightarrow> int option" where
  "int_or_null (Some (Some k)) = (if k \<noteq> 0 then Some k else None)"
| "int_or_null _ = None"

text \<open>\<^verbatim>\<open>data.dueDate ? new Date(data.dueDate) : null\<close>.\<close>

fun date_or_null :: "'n runtime \<Rightarrow> string option \<Rightarrow> Date option" where
  "date_or_null js (Some v) = (if v \<noteq> [] then Some (new_Date js v) else None)"
| "date_or_null js None = None"

definition POST_tasks :: "'n runtime \<Rightarrow> ctx \<Rightarrow> 'n json \<Rightarrow> state \<Rightarrow> response \<times> state" where
  "POST_tasks js c body s =
     (let userId = sub c in
      case taskCreateSchema js body of
        None \<Rightarrow> ((400, Message ''Invalid task data''), s)
      | Some data \<Rightarrow>
          (case createTask js c s
                  \<lparr>it_userId = userId,
                   it_title = title data,
                   it_description = string_or_null (description data),
                   it_subject = string_or_null (subject data),
                   it_priority = (case priority data of Some p \<Rightarrow> p | None \<Rightarrow> Medium),
                   it_status = (case status data of Some st \<Rightarrow> st | None \<Rightarrow> Pending),
                   it_dueDate = (case dueDate data of Some d \<Rightarrow> date_or_null js d | None \<Rightarrow> None),
                   it_estimatedMinutes = int_or_null (estimatedMinutes data)\<rparr> of
             None \<Rightarrow> ((500, Message ''Failed to create task''), s)
           | Some (task, s') \<Rightarrow> ((201, Json_task (Some task)), s')))"

text \<open>The object \<^verbatim>\<open>updateData\<close> of the update handler (lines 154 to 157): the parsed
  data, the due date replaced by a \<^verbatim>\<open>Date\<close> or \<^verbatim>\<open>null\<close> when the key is present.\<close>

definition updateData :: "'n runtime \<Rightarrow> TaskUpdate \<Rightarrow> TaskSet" where
  "updateData js data =
     \<lparr>set_title = title_opt data,
      set_description = description data,
      set_subject = subject data,
      set_priority = priority data,
      set_status = status data,
      set_dueDate = (case dueDate data of None \<Rightarrow> None | Some d \<Rightarrow> Some (date_or_null js d)),
      set_estimatedMinutes = estimatedMinutes data,
      set_completedAt = None\<rparr>"

definition PATCH_tasks_id ::
  "'n runtime \<Rightarrow> ctx \<Rightarrow> string \<Rightarrow> 'n json \<Rightarrow> state \<Rightarrow> response \<times> state" where
  "PATCH_tasks_id js c param body s =
     (let userId = sub c in
      case parseInt js param of
        None \<Rightarrow> ((400, Message ''Invalid task ID''), s)
      | Some i \<Rightarrow>
          (case getTask s i of
             None \<Rightarrow> ((500, Message ''Failed to update task''), s)
           | Some None \<Rightarrow> ((404, Message ''Task not found''), s)
           | Some (Some existing) \<Rightarrow>
               if task_userId existing \<noteq> userId then ((403, Message ''Access denied''), s)
               else (case taskUpdateSchema js body of
                       None \<Rightarrow> ((400, Message ''Invalid task data''), s)
                     | Some data \<Rightarrow>
                         (case updateTask js c s i (updateData js data) of
                            None \<Rightarrow> ((500, Message ''Failed to update task''), s)
                          | Some (task, s') \<Rightarrow> ((200, Json_task task), s')))))"

definition DELETE_tasks_id ::
  "'n runtime \<Rightarrow> ctx \<Rightarrow> string \<Rightarrow> state \<Rightarrow> response \<times> state" where
  "DELETE_tasks_id js c param s =
     (let userId = sub c in
      case parseInt js param of
        None \<Rightarrow> ((400, Message ''Invalid task ID''), s)
      | Some i \<Rightarrow>
          (case getTask s i of
             None \<Rightarrow> ((500, Message ''Failed to delete task''), s)
           | Some None \<Rightarrow> ((404, Message ''Task not found''), s)
           | Some (Some existing) \<Rightarrow>
               if task_userId existing \<noteq> userId then ((403, Message ''Access denied''), s)
               else ((204, No_body), deleteTask s i)))"

definition GET_pomodoro :: "ctx \<Rightarrow> state \<Rightarrow> response \<times> state" where
  "GET_pomodoro c s = ((200, Json_sessions (getPomodoroSessions s (sub c))), s)"

text \<open>
  \<^verbatim>\<open>if (parsed.data.taskId)\<close> holds for a number other than zero; an absent key,
  \<^verbatim>\<open>null\<close> and \<^verbatim>\<open>0\<close> skip the check of the task. The check looks the task up,
  which can throw, and denies (\<open>Some True\<close>) a task that is absent or another user's.
  The session gets the parsed data and the caller's id; an absent \<^verbatim>\<open>taskId\<close> is
  stored as \<^verbatim>\<open>NULL\<close>.
\<close>

fun flatten :: "'a option option \<Rightarrow> 'a option" where
  "flatten (Some v) = v"
| "flatten None = None"

definition POST_pomodoro :: "'n runtime \<Rightarrow> ctx \<Rightarrow> 'n json \<Rightarrow> state \<Rightarrow> response \<times> state" where
  "POST_pomodoro js c body s =
     (let userId = sub c in
      case pomodoroCreateSchema js body of
        None \<Rightarrow> ((400, Message ''Invalid session data''), s)
      | Some data \<Rightarrow>
          (case (case int_or_null (taskId data) of
                   None \<Rightarrow> Some False
                 | Some k \<Rightarrow> (case getTask s k of
                               None \<Rightarrow> None
                             | Some None \<Rightarrow> Some True
                             | Some (Some task) \<Rightarrow> Some (task_userId task \<noteq> userId))) of
             None \<Rightarrow> ((500, Message ''Failed to create session''), s)
           | Some denied \<Rightarrow>
               if denied then ((403, Message ''Task not found or access denied''), s)
               else (let (session, s') =
                           createPomodoroSession c s
                             \<lparr>ip_userId = userId, ip_taskId = flatten (taskId data),
                              ip_duration = duration data, ip_breakDuration = breakDuration data,
                              ip_completed = completed data\<rparr>
                     in ((201, Json_session session), s'))))"

definition GET_recommendations :: "ctx \<Rightarrow> state \<Rightarrow> response \<times> state" where
  "GET_recommendations c s = ((200, Json_recommendations (getRecommendations s (sub c))), s)"

text \<open>
  The call of the language model is outside the server. Its outcome comes with the
  request: the call throws, or it answers with
  \<^verbatim>\<open>response.choices[0]?.message?.content\<close>, which may be missing (\<open>None\<close>). The
  prompt is computed from the caller's tasks and sessions, which are only read, and goes
  nowhere else than into the call. The client object is built when the module is loaded;
  the model is of a server that is running.
\<close>

datatype completion = Provider_throws | Content "string option"

text \<open>Lines 261 to 268: the answer's text to the value of \<^verbatim>\<open>recommendations\<close>, \<open>None\<close>
  when the statement throws, which the \<^verbatim>\<open>JSON.parse\<close> in the \<^verbatim>\<open>catch\<close> block can.\<close>

definition parseContent :: "'n runtime \<Rightarrow> string option \<Rightarrow> 'n json option" where
  "parseContent js answer =
     (let content = (case answer of None \<Rightarrow> ''[]'' | Some t \<Rightarrow> if t \<noteq> [] then t else ''[]'') in
      case JSON_parse js content of
        Some v \<Rightarrow> Some v
      | None \<Rightarrow> (case bracketMatch content of
                   None \<Rightarrow> Some (JArr [])
                 | Some m \<Rightarrow> JSON_parse js m))"

text \<open>
  \<^verbatim>\<open>recommendations.slice(0, 4)\<close> and the elements the loop visits. An array gives its
  first four elements, a string its first four characters; any other parsed value has no
  function \<^verbatim>\<open>slice\<close>, and the call throws a TypeError (\<open>None\<close>).
\<close>

fun slice_0_4 :: "'n json \<Rightarrow> 'n json list option" where
  "slice_0_4 (JArr xs) = Some (take 4 xs)"
| "slice_0_4 (JStr t) = Some (map (\<lambda>ch. JStr [ch]) (take 4 t))"
| "slice_0_4 _ = None"

text \<open>
  The object built for one candidate (lines 272 to 280). Reading a property of
  \<^verbatim>\<open>null\<close> throws, and so can \<^verbatim>\<open>String(...)\<close> (\<open>None\<close>).
\<close>

definition candidate :: "'n runtime \<Rightarrow> string \<Rightarrow> 'n json \<Rightarrow> 'n InsertRecommendation option" where
  "candidate js userId rec =
     (if rec = JNull then None
      else do {
        ti \<leftarrow> ToString js (orElse js (getProp rec ''title'') (JStr ''Study Tip''));
        de \<leftarrow> ToString js (orElse js (getProp rec ''description'') (JStr ''Keep up the great work!''));
        Some \<lparr>ir_userId = userId,
               ir_title = substring0 60 ti,
               ir_description = substring0 200 de,
               ir_subject = orElse js (getProp rec ''subject'') JNull,
               ir_type = orElse js (getProp rec ''type'') (JStr ''study_tip''),
               ir_priority = orElse js (getProp rec ''priority'') (JStr ''medium''),
               ir_dismissed = False\<rparr>
      })"

text \<open>The loop: one insert after the other; a throw, of the handler's own code or of the
  insert, leaves the rows inserted so far.\<close>

fun createAll ::
  "'n runtime \<Rightarrow> ctx \<Rightarrow> 'n json list \<Rightarrow> StudyRecommendation list \<Rightarrow> state \<Rightarrow>
   StudyRecommendation list option \<times> state" where
  "createAll js c [] created s = (Some created, s)"
| "createAll js c (rec # rest) created s =
     (case candidate js (sub c) rec of
        None \<Rightarrow> (None, s)
      | Some d \<Rightarrow>
          (case createRecommendation js c s d of
             None \<Rightarrow> (None, s)
           | Some (saved, s') \<Rightarrow> createAll js c rest (created @ [saved]) s'))"

definition configured :: "string option \<Rightarrow> bool" where
  "configured v = (case v of None \<Rightarrow> False | Some k \<Rightarrow> k \<noteq> [])"

definition POST_recommendations_generate ::
  "'n runtime \<Rightarrow> ctx \<Rightarrow> completion \<Rightarrow> state \<Rightarrow> response \<times> state" where
  "POST_recommendations_generate js c answer s =
     (if \<not> configured (AI_INTEGRATIONS_OPENAI_API_KEY s)
      then ((503, Message ''AI service is not configured''), s)
      else case answer of
             Provider_throws \<Rightarrow> ((500, Message ''Failed to generate recommendations''), s)
           | Content text \<Rightarrow>
               (case parseContent js text of
                  None \<Rightarrow> ((500, Message ''Failed to generate recommendations''), s)
                | Some recommendations \<Rightarrow>
                    (case slice_0_4 recommendations of
                       None \<Rightarrow> ((500, Message ''Failed to generate recommendations''), s)
                     | Some recs \<Rightarrow>
                         (case createAll js c recs [] s of
                            (None, s') \<Rightarrow> ((500, Message ''Failed to generate recommendations''), s')
                          | (Some created, s') \<Rightarrow> ((200, Json_recommendations created), s')))))"

definition PATCH_recommendations_id_dismiss ::
  "'n runtime \<Rightarrow> ctx \<Rightarrow> string \<Rightarrow> state \<Rightarrow> response \<times> state" where
  "PATCH_recommendations_id_dismiss js c param s =
     (let userId = sub c in
      case parseInt js param of
        None \<Rightarrow> ((400, Message ''Invalid ID''), s)
      | Some i \<Rightarrow>
          (case find (\<lambda>r. rec_id r = i) (getRecommendations s userId) of
             None \<Rightarrow> ((404, Message ''Recommendation not found''), s)
           | Some rec \<Rightarrow> ((200, Success), dismissRecommendation s i)))"

definition GET_files :: "ctx \<Rightarrow> state \<Rightarrow> response \<times> state" where
  "GET_files c s = ((200, Json_files (getFiles s (sub c))), s)"

definition ALLOWED_MIME_TYPES :: "string list" where
  "ALLOWED_MIME_TYPES =
     [''application/pdf'',
      ''image/jpeg'',
      ''image/png'',
      ''image/gif'',
      ''text/plain'',
      ''application/msword'',
      ''application/vnd.openxmlformats-officedocument.wordprocessingml.document'',
      ''application/vnd.ms-excel'',
      ''application/vnd.openxmlformats-officedocument.spreadsheetml.sheet'',
      ''application/vnd.ms-powerpoint'',
      ''application/vnd.openxmlformats-officedocument.presentationml.presentation'']"

text \<open>
  The file part of an upload, with the name the disk storage generates for it
  (\<^verbatim>\<open>Date.now()\<close>, a random number and the extension of the original name).
\<close>

record FilePart =
  part_originalname :: string
  part_mimetype :: string
  part_size :: int
  part_filename :: string

text \<open>
  The upload middleware runs before the handler. It refuses a type outside the list and a
  file above 50 MB with an error that goes to the application's error handling, not to
  the handler (status 500 here); else the file is in the upload directory when the handler
  starts, and stays there whatever the handler answers. \<open>taskIdField\<close> is the text field
  \<^verbatim>\<open>taskId\<close> of the form.
\<close>

definition POST_files_upload ::
  "'n runtime \<Rightarrow> ctx \<Rightarrow> FilePart option \<Rightarrow> string option \<Rightarrow> state \<Rightarrow> response \<times> state" where
  "POST_files_upload js c part taskIdField s =
     (case part of
        None \<Rightarrow> ((400, Message ''No file provided''), s)
      | Some file \<Rightarrow>
          if part_mimetype file \<notin> set ALLOWED_MIME_TYPES then ((500, Message ''File type not allowed''), s)
          else if part_size file > 50 * 1024 * 1024 then ((500, Message ''File too large''), s)
          else
            (let s1 = s\<lparr>uploadDir := insert (part_filename file) (uploadDir s)\<rparr>;
                 userId = sub c;
                 save = (\<lambda>k. case createFile c s1
                                     \<lparr>if_userId = userId, if_filename = part_filename file,
                                      if_originalName = part_originalname file,
                                      if_mimeType = part_mimetype file, if_size = part_size file,
                                      if_taskId = k\<rparr> of
                              None \<Rightarrow> ((500, Message ''Failed to upload file''), s1)
                            | Some (saved, s2) \<Rightarrow> ((201, Json_file saved), s2))
             in case string_or_null (Some taskIdField) of
                  None \<Rightarrow> save None
                | Some v \<Rightarrow>
                    (case parseInt js v of
                       None \<Rightarrow> ((400, Message ''Invalid task ID''), s1)
                     | Some k \<Rightarrow>
                         (case getTask s1 k of
                            None \<Rightarrow> ((500, Message ''Failed to upload file''), s1)
                          | Some None \<Rightarrow> ((403, Message ''Task not found or access denied''), s1)
                          | Some (Some task) \<Rightarrow>
                              if task_userId task \<noteq> userId
                              then ((403, Message ''Task not found or access denied''), s1)
                              else save (Some k)))))"

text \<open>
  The download sets two headers from the row, the original name and the stored type, and
  answers with the file itself. \<^verbatim>\<open>setHeader\<close> throws for a value with a character that
  a header cannot hold: a control character other than the tab.
\<close>

definition headerValue :: "string \<Rightarrow> bool" where
  "headerValue v \<longleftrightarrow>
     (\<forall>ch \<in> set v. ch = CHR 0x09 \<or> ((32::nat) \<le> of_char ch \<and> of_char ch \<noteq> (127::nat)))"

definition GET_files_id_download ::
  "'n runtime \<Rightarrow> ctx \<Rightarrow> string \<Rightarrow> state \<Rightarrow> response \<times> state" where
  "GET_files_id_download js c param s =
     (let userId = sub c in
      case parseInt js param of
        None \<Rightarrow> ((400, Message ''Invalid ID''), s)
      | Some i \<Rightarrow>
          (case getFile s i of
             None \<Rightarrow> ((500, Message ''Failed to download file''), s)
           | Some None \<Rightarrow> ((404, Message ''File not found''), s)
           | Some (Some file) \<Rightarrow>
               if file_userId file \<noteq> userId then ((403, Message ''Access denied''), s)
               else if file_filename file \<notin> uploadDir s
               then ((404, Message ''File not found on disk''), s)
               else if \<not> (headerValue (file_originalName file) \<and> headerValue (file_mimeType file))
               then ((500, Message ''Failed to download file''), s)
               else ((200, Send_file (file_filename file) (file_originalName file)
                                    (file_mimeType file)), s)))"

definition DELETE_files_id ::
  "'n runtime \<Rightarrow> ctx \<Rightarrow> string \<Rightarrow> state \<Rightarrow> response \<times> state" where
  "DELETE_files_id js c param s =
     (let userId = sub c in
      case parseInt js param of
        None \<Rightarrow> ((400, Message ''Invalid ID''), s)
      | Some i \<Rightarrow>
          (case getFile s i of
             None \<Rightarrow> ((500, Message ''Failed to delete file''), s)
           | Some None \<Rightarrow> ((404, Message ''File not found''), s)
           | Some (Some file) \<Rightarrow>
               if file_userId file \<noteq> userId then ((403, Message ''Access denied''), s)
               else ((204, No_body),
                     deleteFile (s\<lparr>uploadDir := uploadDir s - {file_filename file}\<rparr>) i)))"

definition GET_notifications :: "ctx \<Rightarrow> state \<Rightarrow> response \<times> state" where
  "GET_notifications c s = ((200, Json_notifications (getNotifications s (sub c))), s)"

definition PATCH_notifications_id_read ::
  "'n runtime \<Rightarrow> ctx \<Rightarrow> string \<Rightarrow> state \<Rightarrow> response \<times> state" where
  "PATCH_notifications_id_read js c param s =
     (let userId = sub c in
      case parseInt js param of
        None \<Rightarrow> ((400, Message ''Invalid ID''), s)
      | Some i \<Rightarrow>
          (case find (\<lambda>n. notif_id n = i) (getNotifications s userId) of
             None \<Rightarrow> ((404, Message ''Notification not found''), s)
           | Some notif \<Rightarrow> ((200, Success), markNotificationRead s i)))"

definition PATCH_notifications_read_all :: "ctx \<Rightarrow> state \<Rightarrow> response \<times> state" where
  "PATCH_notifications_read_all c s = ((200, Success), markAllNotificationsRead s (sub c))"

text \<open>\<^verbatim>\<open>profile?.role !== "admin"\<close>: a caller without a profile is not an admin.\<close>

definition notAdmin :: "state \<Rightarrow> string \<Rightarrow> bool" where
  "notAdmin s userId = (case getProfile s userId of None \<Rightarrow> True | Some p \<Rightarrow> profile_role p \<noteq> Admin)"

definition GET_admin_stats :: "ctx \<Rightarrow> state \<Rightarrow> response \<times> state" where
  "GET_admin_stats c s =
     (if notAdmin s (sub c) then ((403, Message ''Access denied''), s)
      else
        (let allUsers = users s;
             allTasks = getAllTasks s;
             allSessions = getAllPomodoroSessions s;
             completedTasks = length (filter (\<lambda>t. task_status t = Completed) allTasks);
             completedSessions = filter session_completed allSessions;
             totalStudyMinutes = sum_list (map session_duration completedSessions);
             userActivity =
               map (\<lambda>u. (case string_or_null (Some (user_email u)) of
                            Some e \<Rightarrow> e
                          | None \<Rightarrow> substring0 8 (user_id u),
                          length (filter (\<lambda>t. task_userId t = user_id u) allTasks),
                          length (filter (\<lambda>p. session_userId p = user_id u \<and> session_completed p)
                                         allSessions)))
                   allUsers
         in ((200, Json_stats (length allUsers) (length allTasks) completedTasks
                     (length completedSessions) totalStudyMinutes userActivity), s)))"

definition GET_admin_users :: "ctx \<Rightarrow> state \<Rightarrow> response \<times> state" where
  "GET_admin_users c s =
     (if notAdmin s (sub c) then ((403, Message ''Access denied''), s)
      else
        (let allUsers = users s;
             allProfiles = getAllProfiles s;
             enriched =
               map (\<lambda>u. (u, case find (\<lambda>p. profile_userId p = user_id u) allProfiles of
                               Some p \<Rightarrow> profile_role p
                             | None \<Rightarrow> Student))
                   allUsers
         in ((200, Json_users enriched), s)))"

text \<open>The user whose role is set is named in the path; the lookup of the profile throws
  for a name that is not a text the database takes.\<close>

definition PATCH_admin_users_userId_role ::
  "ctx \<Rightarrow> string \<Rightarrow> 'n json \<Rightarrow> state \<Rightarrow> response \<times> state" where
  "PATCH_admin_users_userId_role c userId body s =
     (if notAdmin s (sub c) then ((403, Message ''Access denied''), s)
      else case roleUpdateSchema body of
             None \<Rightarrow> ((400, Message ''Invalid role data''), s)
           | Some r \<Rightarrow>
               if \<not> pgText userId then ((500, Message ''Failed to update role''), s)
               else
                 (let (profile, s') = (case getProfile s userId of
                                         None \<Rightarrow> upsertProfile s userId r
                                       | Some p \<Rightarrow> updateProfileRole s userId r)
                  in ((200, Json_profile profile), s')))"

section \<open>The server as a transition system\<close>

text \<open>One constructor for each route that \<^verbatim>\<open>registerRoutes\<close> defines, with what the
  request carries. The routes of the authentication module (login, callback, logout) are
  that module's own and work on its tables.\<close>

datatype 'n request =
    Get_profile
  | Get_tasks
  | Post_tasks "'n json"
  | Patch_task string "'n json"
  | Delete_task string
  | Get_pomodoro
  | Post_pomodoro "'n json"
  | Get_recommendations
  | Generate_recommendations completion
  | Dismiss_recommendation string
  | Get_files
  | Upload_file "FilePart option" "string option"
  | Download_file string
  | Delete_file string
  | Get_notifications
  | Read_notification string
  | Read_all_notifications
  | Get_admin_stats
  | Get_admin_users
  | Patch_user_role string "'n json"

fun handle :: "'n runtime \<Rightarrow> ctx \<Rightarrow> 'n request \<Rightarrow> state \<Rightarrow> response \<times> state" where
  "handle js c Get_profile s = GET_profile c s"
| "handle js c Get_tasks s = GET_tasks c s"
| "handle js c (Post_tasks body) s = POST_tasks js c body s"
| "handle js c (Patch_task param body) s = PATCH_tasks_id js c param body s"
| "handle js c (Delete_task param) s = DELETE_tasks_id js c param s"
| "handle js c Get_pomodoro s = GET_pomodoro c s"
| "handle js c (Post_pomodoro body) s = POST_pomodoro js c body s"
| "handle js c Get_recommendations s = GET_recommendations c s"
| "handle js c (Generate_recommendations answer) s = POST_recommendations_generate js c answer s"
| "handle js c (Dismiss_recommendation param) s = PATCH_recommendations_id_dismiss js c param s"
| "handle js c Get_files s = GET_files c s"
| "handle js c (Upload_file part taskIdField) s = POST_files_upload js c part taskIdField s"
| "handle js c (Download_file param) s = GET_files_id_download js c param s"
| "handle js c (Delete_file param) s = DELETE_files_id js c param s"
| "handle js c Get_notifications s = GET_notifications c s"
| "handle js c (Read_notification param) s = PATCH_notifications_id_read js c param s"
| "handle js c Read_all_notifications s = PATCH_notifications_read_all c s"
| "handle js c Get_admin_stats s = GET_admin_stats c s"
| "handle js c Get_admin_users s = GET_admin_users c s"
| "handle js c (Patch_user_role userId body) s = PATCH_admin_users_userId_role c userId body s"

text \<open>A run of the server: the requests are handled one after the other.\<close>

fun run :: "'n runtime \<Rightarrow> (ctx \<times> 'n request) list \<Rightarrow> state \<Rightarrow> state" where
  "run js [] s = s"
| "run js ((c, r) # rest) s = run js rest (snd (handle js c r s))"

section \<open>A runtime and a database for the examples\<close>

text \<open>The decimal digits of a natural number.\<close>

function decimal :: "nat \<Rightarrow> string" where
  "decimal n =
     (if n < 10 then [char_of (48 + n)] else decimal (n div 10) @ [char_of (48 + n mod 10)])"
  by pat_completeness auto
termination
  by (relation "measure id") auto

text \<open>
  The examples below run the handlers on a runtime whose numbers are the integers. It
  reads the listed literals as the platform does; every other string it is asked about in
  an example is one the platform rejects as well (a SyntaxError, an Invalid Date,
  \<^verbatim>\<open>NaN\<close>). Its database takes the times from 1970 to the end of the year 9999. No
  example binds an array or an object to a text column, and the text for them is left
  empty.
\<close>

definition sixCandidates :: string where
  \<open>sixCandidates =
     ''[{"title":"Review the chapter on linear algebra and redo every exercise twice","type":"review"},{"title":"","priority":0},{"title":5,"subject":"Math","type":"focus","priority":"high"},{},{"title":"Fifth"},{"title":"Sixth"}]''\<close>

definition sixCandidatesParsed :: "int json list" where
  "sixCandidatesParsed =
     [JObj [(''title'', JStr ''Review the chapter on linear algebra and redo every exercise twice''),
            (''type'', JStr ''review'')],
      JObj [(''title'', JStr []), (''priority'', JNum 0)],
      JObj [(''title'', JNum 5), (''subject'', JStr ''Math''), (''type'', JStr ''focus''),
            (''priority'', JStr ''high'')],
      JObj [],
      JObj [(''title'', JStr ''Fifth'')],
      JObj [(''title'', JStr ''Sixth'')]]"

definition exampleRuntime :: "int runtime" where
  \<open>exampleRuntime =
     \<lparr>JSON_parse = map_of
        [(''[]'', JArr []),
         (''[{"title":"Plan","type":"banana","priority":"urgent"}]'',
          JArr [JObj [(''title'', JStr ''Plan''), (''type'', JStr ''banana''),
                      (''priority'', JStr ''urgent'')]]),
         (sixCandidates, JArr sixCandidatesParsed),
         (''[{"title":"A"},null,{"title":"B"}]'',
          JArr [JObj [(''title'', JStr ''A'')], JNull, JObj [(''title'', JStr ''B'')]])],
      Number_int = Some,
      Number_toString = (\<lambda>k. if k < 0 then CHR ''-'' # decimal (nat (- k)) else decimal (nat k)),
      new_Date = (\<lambda>t. case map_of [(''2030-01-01T00:00:00.000Z'', 1893456000000)] t of
                          Some v \<Rightarrow> Date v
                        | None \<Rightarrow> Invalid_Date),
      parseInt = map_of [(''1'', 1), (''2'', 2), (''3'', 3), (''99999999999'', 99999999999)],
      driver_text = (\<lambda>v. []),
      timestamp_accepted = (\<lambda>t. 0 \<le> t \<and> t < 253402300800000)\<rparr>\<close>

text \<open>The database before the first request.\<close>

definition emptyDb :: "string option \<Rightarrow> state" where
  "emptyDb key =
     \<lparr>users = [], userProfiles = [], tasks = [], pomodoroSessions = [],
      studyRecommendations = [], fileUploads = [], notifications = [],
      seq_userProfiles = 1, seq_tasks = 1, seq_pomodoroSessions = 1,
      seq_studyRecommendations = 1, seq_fileUploads = 1, seq_notifications = 1,
      uploadDir = {}, AI_INTEGRATIONS_OPENAI_API_KEY = key\<rparr>"

text \<open>
  A database in which the user \<^verbatim>\<open>bob\<close> owns one row of each kind, all with id 1: a
  completed task, a file that is on disk, a notification that is read and a
  recommendation that is dismissed.
\<close>

definition bobsDb :: "state" where
  "bobsDb =
     \<lparr>users = [\<lparr>user_id = ''alice'', user_email = None\<rparr>, \<lparr>user_id = ''bob'', user_email = None\<rparr>],
      userProfiles = [],
      tasks = [\<lparr>task_id = 1, task_userId = ''bob'', task_title = ''Essay'',
                task_description = None, task_subject = Some ''History'',
                task_priority = High, task_status = Completed, task_dueDate = None,
                task_estimatedMinutes = Some 90, task_completedAt = Some 500,
                task_createdAt = 100\<rparr>],
      pomodoroSessions = [],
      studyRecommendations =
        [\<lparr>rec_id = 1, rec_userId = ''bob'', rec_title = ''Review'', rec_description = ''Read it again'',
          rec_subject = None, rec_type = ''review'', rec_priority = ''low'',
          rec_dismissed = True, rec_createdAt = 200\<rparr>],
      fileUploads =
        [\<lparr>file_id = 1, file_userId = ''bob'', file_filename = ''1700000000000-42.txt'',
          file_originalName = ''notes.txt'', file_mimeType = ''text/plain'', file_size = 10,
          file_taskId = None, file_createdAt = 300\<rparr>],
      notifications =
        [\<lparr>notif_id = 1, notif_userId = ''bob'', notif_title = ''Deadline'',
          notif_message = ''Essay is due'', notif_type = ''deadline'', notif_read = True,
          notif_createdAt = 400\<rparr>],
      seq_userProfiles = 1, seq_tasks = 2, seq_pomodoroSessions = 1,
      seq_studyRecommendations = 2, seq_fileUploads = 2, seq_notifications = 2,
      uploadDir = {''1700000000000-42.txt''},
      AI_INTEGRATIONS_OPENAI_API_KEY = Some ''key''\<rparr>"

definition alice :: ctx where
  "alice = \<lparr>sub = ''alice'', now = 1000, dbNow = 1001\<rparr>"

definition bob :: ctx where
  "bob = \<lparr>sub = ''bob'', now = 2000, dbNow = 2001\<rparr>"

section \<open>Notions used to state the properties\<close>

text \<open>The values that the prompt of the generation handler asks the model to use for
  \<^verbatim>\<open>type\<close> and \<^verbatim>\<open>priority\<close>.\<close>

definition recommendationTypes :: "string list" where
  "recommendationTypes = [''study_tip'', ''focus'', ''review'', ''schedule'']"

definition recommendationPriorities :: "string list" where
  "recommendationPriorities = [''low'', ''medium'', ''high'']"

text \<open>
  A candidate can be stored when it is not \<^verbatim>\<open>null\<close>, its title and description (or
  their defaults) can be made strings, and the database takes the five texts of the row:
  the title and the description cut to 60 and 200 characters, and the texts of the
  subject, the type and the priority (or of their defaults).
\<close>

definition storable :: "'n runtime \<Rightarrow> 'n json \<Rightarrow> bool" where
  "storable js x \<longleftrightarrow>
     x \<noteq> JNull \<and>
     (case ToString js (orElse js (getProp x ''title'') (JStr ''Study Tip'')) of
        None \<Rightarrow> False
      | Some t \<Rightarrow> pgText (take 60 t)) \<and>
     (case ToString js (orElse js (getProp x ''description'') (JStr ''Keep up the great work!'')) of
        None \<Rightarrow> False
      | Some t \<Rightarrow> pgText (take 200 t)) \<and>
     pgTextOrNull (textParam js (orElse js (getProp x ''subject'') JNull)) \<and>
     (case textParam js (orElse js (getProp x ''type'') (JStr ''study_tip'')) of
        None \<Rightarrow> False
      | Some t \<Rightarrow> pgText t) \<and>
     (case textParam js (orElse js (getProp x ''priority'') (JStr ''medium'')) of
        None \<Rightarrow> False
      | Some t \<Rightarrow> pgText t)"

text \<open>
  A stored recommendation \<open>r\<close> is the coerced form of a candidate \<open>x\<close> for a user: the
  candidate is not \<^verbatim>\<open>null\<close>; the row is the user's and not dismissed; its title and
  description are the first 60 and 200 characters of the candidate's title and
  description as strings; and each of the five fields has its default where the
  candidate's value is missing or falsy, and holds the text of the candidate's value
  where it is not.
\<close>

definition coerced :: "'n runtime \<Rightarrow> string \<Rightarrow> 'n json \<Rightarrow> StudyRecommendation \<Rightarrow> bool" where
  "coerced js userId x r \<longleftrightarrow>
     x \<noteq> JNull \<and>
     rec_userId r = userId \<and> \<not> rec_dismissed r \<and>
     length (rec_title r) \<le> 60 \<and> length (rec_description r) \<le> 200 \<and>
     Some (rec_title r) =
       map_option (take 60) (ToString js (orElse js (getProp x ''title'') (JStr ''Study Tip''))) \<and>
     Some (rec_description r) =
       map_option (take 200)
         (ToString js (orElse js (getProp x ''description'') (JStr ''Keep up the great work!''))) \<and>
     rec_subject r = textParam js (orElse js (getProp x ''subject'') JNull) \<and>
     Some (rec_type r) = textParam js (orElse js (getProp x ''type'') (JStr ''study_tip'')) \<and>
     Some (rec_priority r) = textParam js (orElse js (getProp x ''priority'') (JStr ''medium''))"

text \<open>
  A table keeps a flag from one state to a later one when every row of the earlier state
  is still at its place, with its id, and has the flag if it had it before.
\<close>

definition kept :: "('a \<Rightarrow> int) \<Rightarrow> ('a \<Rightarrow> bool) \<Rightarrow> 'a list \<Rightarrow> 'a list \<Rightarrow> bool" where
  "kept ident flag rows rows' \<longleftrightarrow>
     length rows \<le> length rows' \<and>
     (\<forall>i < length rows. ident (rows' ! i) = ident (rows ! i) \<and> (flag (rows ! i) \<longrightarrow> flag (rows' ! i)))"

definition flagsKept :: "state \<Rightarrow> state \<Rightarrow> bool" where
  "flagsKept s s' \<longleftrightarrow>
     kept rec_id rec_dismissed (studyRecommendations s) (studyRecommendations s') \<and>
     kept notif_id notif_read (notifications s) (notifications s')"

section \<open>Parsing the request bodies\<close>

lemma required_Some: "required schema v = Some a \<Longrightarrow> \<exists>j. v = Some j \<and> schema j = Some a"
  by (cases v) auto

lemma z_boolean_Some: "z_boolean j = Some b \<Longrightarrow> j = JBool b"
  by (cases j) auto

lemma optional_nullable_number:
  "optional_nullable (z_number_int js) (Some (JNum n)) = Some a \<Longrightarrow>
     \<exists>k. Number_int js n = Some k \<and> a = Some (Some k)"
  by auto

lemma z_enum_status_completed:
  assumes a: "optional (z_enum statusValues) v = Some (Some Completed)"
  shows "v = Some (JStr ''completed'')"
proof (cases v)
  case None
  with a show ?thesis by simp
next
  case (Some j)
  show ?thesis
  proof (cases j)
    case (JStr t)
    with a Some have "map_of statusValues t = Some Completed" by auto
    then have "t = ''completed''"
      by (auto simp: statusValues_def split: if_splits)
    with Some JStr show ?thesis by simp
  qed (use a Some in auto)
qed

lemma taskFields_absent:
  assumes "taskFields js body = Some fs"
  shows "(getProp body ''description'' = None \<longrightarrow> description fs = None) \<and>
         (getProp body ''subject'' = None \<longrightarrow> subject fs = None) \<and>
         (getProp body ''priority'' = None \<longrightarrow> priority fs = None) \<and>
         (getProp body ''status'' = None \<longrightarrow> status fs = None) \<and>
         (getProp body ''dueDate'' = None \<longrightarrow> dueDate fs = None) \<and>
         (getProp body ''estimatedMinutes'' = None \<longrightarrow> estimatedMinutes fs = None) \<and>
         (status fs = Some Completed \<longrightarrow> getProp body ''status'' = Some (JStr ''completed''))"
  using assms
  by (auto simp: taskFields_def bind_eq_Some_conv dest: z_enum_status_completed)

lemma taskUpdateSchema_absent:
  assumes "taskUpdateSchema js body = Some data"
  shows "(getProp body ''title'' = None \<longrightarrow> title_opt data = None) \<and>
         (getProp body ''description'' = None \<longrightarrow> description data = None) \<and>
         (getProp body ''subject'' = None \<longrightarrow> subject data = None) \<and>
         (getProp body ''priority'' = None \<longrightarrow> priority data = None) \<and>
         (getProp body ''status'' = None \<longrightarrow> status data = None) \<and>
         (getProp body ''dueDate'' = None \<longrightarrow> dueDate data = None) \<and>
         (getProp body ''estimatedMinutes'' = None \<longrightarrow> estimatedMinutes data = None) \<and>
         (status data = Some Completed \<longrightarrow> getProp body ''status'' = Some (JStr ''completed''))"
proof -
  from assms obtain ti fs where fs: "taskFields js body = Some fs"
    and ti: "optional (z_string_min_max 1 500) (getProp body ''title'') = Some ti"
    and data: "data = TaskFields.extend fs (TaskUpdate.fields ti)"
    by (auto simp: taskUpdateSchema_def bind_eq_Some_conv split: if_splits)
  have "title_opt data = ti" "description data = description fs" "subject data = subject fs"
    "priority data = priority fs" "status data = status fs" "dueDate data = dueDate fs"
    "estimatedMinutes data = estimatedMinutes fs"
    by (simp_all add: data TaskFields.extend_def TaskUpdate.fields_def TaskFields.defs
        TaskUpdate.defs)
  with taskFields_absent [OF fs] ti show ?thesis
    by (cases "getProp body ''title''") simp_all
qed

lemma taskUpdateSchema_completed:
  assumes "taskUpdateSchema js body = Some data"
    and "getProp body ''status'' = Some (JStr ''completed'')"
  shows "status data = Some Completed"
proof -
  from assms(1) obtain ti fs where fs: "taskFields js body = Some fs"
    and data: "data = TaskFields.extend fs (TaskUpdate.fields ti)"
    by (auto simp: taskUpdateSchema_def bind_eq_Some_conv split: if_splits)
  have "status data = status fs"
    by (simp add: data TaskFields.extend_def TaskUpdate.fields_def TaskFields.defs TaskUpdate.defs)
  moreover from fs assms(2) have "status fs = Some Completed"
    by (auto simp: taskFields_def bind_eq_Some_conv statusValues_def)
  ultimately show ?thesis by simp
qed

lemma updateData_absent:
  assumes "taskUpdateSchema js body = Some data"
  shows "(getProp body ''title'' = None \<longrightarrow> set_title (updateData js data) = None) \<and>
         (getProp body ''description'' = None \<longrightarrow> set_description (updateData js data) = None) \<and>
         (getProp body ''subject'' = None \<longrightarrow> set_subject (updateData js data) = None) \<and>
         (getProp body ''priority'' = None \<longrightarrow> set_priority (updateData js data) = None) \<and>
         (getProp body ''status'' = None \<longrightarrow> set_status (updateData js data) = None) \<and>
         (getProp body ''dueDate'' = None \<longrightarrow> set_dueDate (updateData js data) = None) \<and>
         (getProp body ''estimatedMinutes'' = None \<longrightarrow>
            set_estimatedMinutes (updateData js data) = None) \<and>
         set_completedAt (updateData js data) = None \<and>
         (set_status (updateData js data) = Some Completed \<longrightarrow>
            getProp body ''status'' = Some (JStr ''completed''))"
  using taskUpdateSchema_absent [OF assms] by (simp add: updateData_def)

lemma pomodoroCreateSchema_completed:
  assumes "pomodoroCreateSchema js body = Some data"
  shows "getProp body ''completed'' = Some (JBool (completed data))"
  using assms
  by (auto simp: pomodoroCreateSchema_def bind_eq_Some_conv split: if_splits
           dest!: required_Some z_boolean_Some)

lemma pomodoroCreateSchema_taskId:
  assumes "pomodoroCreateSchema js body = Some data"
  shows "optional_nullable (z_number_int js) (getProp body ''taskId'') = Some (taskId data)"
  using assms
  by (auto simp: pomodoroCreateSchema_def bind_eq_Some_conv split: if_splits)

section \<open>Reading the tables\<close>

lemma set_orderByDesc: "set (orderByDesc col rows) = set rows"
  by (simp add: orderByDesc_def)

lemma find_orderByDesc_None:
  "find P (orderByDesc col (filter Q rows)) = None \<longleftrightarrow> (\<forall>x \<in> set rows. Q x \<longrightarrow> \<not> P x)"
  by (auto simp: find_None_iff set_orderByDesc)

section \<open>Tasks\<close>

lemma toColumn_None:
  "toColumn js d = None \<longleftrightarrow>
     d = Some Invalid_Date \<or> (\<exists>t. d = Some (Date t) \<and> \<not> timestamp_accepted js t)"
  by (cases "(js, d)" rule: toColumn.cases) simp_all

text \<open>A body that passes the schema is answered with 201 when the database takes its
  texts and its due date, if one is given, is a date the database takes.\<close>

lemma POST_tasks_valid:
  assumes v: "taskCreateSchema js body = Some data"
    and d: "\<forall>t. dueDate data = Some (Some t) \<and> t \<noteq> [] \<longrightarrow>
              (\<exists>v. new_Date js t = Date v \<and> timestamp_accepted js v)"
    and t: "pgText (title data)" "pgTextOrNull (string_or_null (description data))"
      "pgTextOrNull (string_or_null (subject data))"
  shows "fst (fst (POST_tasks js c body s)) = 201"
proof -
  have "toColumn js (case dueDate data of Some x \<Rightarrow> date_or_null js x | None \<Rightarrow> None) \<noteq> None"
  proof (cases "dueDate data")
    case None
    then show ?thesis by simp
  next
    case (Some x)
    with d show ?thesis by (cases x) (auto simp: toColumn_None)
  qed
  with v t show ?thesis
    by (auto simp: POST_tasks_def createTask_def Let_def split: option.splits)
qed

lemma POST_tasks_created:
  assumes "fst (fst (POST_tasks js c body s)) = 201"
  shows "\<exists>t. POST_tasks js c body s =
               ((201, Json_task (Some t)), s\<lparr>tasks := tasks s @ [t], seq_tasks := seq_tasks s + 1\<rparr>) \<and>
             task_userId t = sub c \<and> task_completedAt t = None \<and> task_id t = seq_tasks s \<and>
             task_createdAt t = dbNow c"
  using assms
  by (auto simp: POST_tasks_def createTask_def Let_def split: option.splits)

text \<open>
  C8. Every request to create a task that is answered with 201 has added one task to the
  table, and this task belongs to the authenticated caller, whatever the body of the
  request holds (a key \<^verbatim>\<open>userId\<close> in it is never read).
\<close>

theorem task_owner_is_caller:
  assumes "fst (fst (POST_tasks js c body s)) = 201"
  shows "\<exists>t. snd (fst (POST_tasks js c body s)) = Json_task (Some t) \<and>
             tasks (snd (POST_tasks js c body s)) = tasks s @ [t] \<and>
             task_userId t = sub c"
  using POST_tasks_created [OF assms] by auto

theorem task_owner_is_caller_witness:
  "fst (fst (POST_tasks exampleRuntime alice
               (JObj [(''title'', JStr ''Essay''), (''userId'', JStr ''bob'')]) (emptyDb None))) = 201 \<and>
   (\<exists>t. snd (fst (POST_tasks exampleRuntime alice
               (JObj [(''title'', JStr ''Essay''), (''userId'', JStr ''bob'')]) (emptyDb None)))
          = Json_task (Some t) \<and>
        tasks (snd (POST_tasks exampleRuntime alice
               (JObj [(''title'', JStr ''Essay''), (''userId'', JStr ''bob'')]) (emptyDb None)))
          = tasks (emptyDb None) @ [t] \<and>
        task_userId t = sub alice)"
proof -
  have h: "fst (fst (POST_tasks exampleRuntime alice
               (JObj [(''title'', JStr ''Essay''), (''userId'', JStr ''bob'')]) (emptyDb None))) = 201"
    by code_simp
  show ?thesis
    by (rule conjI [OF h task_owner_is_caller [OF h]])
qed

text \<open>The body of the example names \<^verbatim>\<open>bob\<close> as the owner; the stored task is the
  caller's.\<close>

lemma task_owner_example:
  "map task_userId (tasks (snd (POST_tasks exampleRuntime alice
      (JObj [(''title'', JStr ''Essay''), (''userId'', JStr ''bob'')]) (emptyDb None)))) = [''alice'']"
  by code_simp

text \<open>
  C2, on the input where the code departs from it. A task created with the status
  \<^verbatim>\<open>completed\<close> is stored with the status \<^verbatim>\<open>completed\<close> and no completion time.
\<close>

theorem create_completed_task_without_completedAt:
  "POST_tasks exampleRuntime alice
     (JObj [(''title'', JStr ''Essay''), (''status'', JStr ''completed'')]) (emptyDb None) =
   ((201, Json_task (Some
       \<lparr>task_id = 1, task_userId = ''alice'', task_title = ''Essay'', task_description = None,
        task_subject = None, task_priority = Medium, task_status = Completed,
        task_dueDate = None, task_estimatedMinutes = None, task_completedAt = None,
        task_createdAt = 1001\<rparr>)),
    (emptyDb None)\<lparr>tasks :=
       [\<lparr>task_id = 1, task_userId = ''alice'', task_title = ''Essay'', task_description = None,
         task_subject = None, task_priority = Medium, task_status = Completed,
         task_dueDate = None, task_estimatedMinutes = None, task_completedAt = None,
         task_createdAt = 1001\<rparr>], seq_tasks := 2\<rparr>)"
  by (simp add: POST_tasks_def taskCreateSchema_def taskFields_def exampleRuntime_def alice_def
      emptyDb_def z_string_min_max_def createTask_def Let_def statusValues_def priorityValues_def
      TaskFields.extend_def TaskCreate.fields_def pgText_def pgTextOrNull_def)

lemma updateTask_Some:
  assumes "updateTask js c s i d = Some (r, s')"
  shows "s' = s\<lparr>tasks := map (\<lambda>t. if task_id t = i
            then applySet js (if set_status d = Some Completed
                           then d\<lparr>set_completedAt := Some (now c)\<rparr> else d) t
            else t) (tasks s)\<rparr>"
  using assms by (simp add: updateTask_def Let_def split: if_splits)

lemma applySet_frame:
  "task_id (applySet js u t) = task_id t \<and> task_userId (applySet js u t) = task_userId t \<and>
   task_createdAt (applySet js u t) = task_createdAt t \<and>
   (set_completedAt u = None \<longrightarrow> task_completedAt (applySet js u t) = task_completedAt t) \<and>
   (set_title u = None \<longrightarrow> task_title (applySet js u t) = task_title t) \<and>
   (set_description u = None \<longrightarrow> task_description (applySet js u t) = task_description t) \<and>
   (set_subject u = None \<longrightarrow> task_subject (applySet js u t) = task_subject t) \<and>
   (set_priority u = None \<longrightarrow> task_priority (applySet js u t) = task_priority t) \<and>
   (set_status u = None \<longrightarrow> task_status (applySet js u t) = task_status t) \<and>
   (set_dueDate u = None \<longrightarrow> task_dueDate (applySet js u t) = task_dueDate t) \<and>
   (set_estimatedMinutes u = None \<longrightarrow> task_estimatedMinutes (applySet js u t) = task_estimatedMinutes t)"
  by (simp add: applySet_def)

lemma PATCH_tasks_id_cases:
  "snd (PATCH_tasks_id js c param body s) = s \<and>
     fst (fst (PATCH_tasks_id js c param body s)) \<noteq> 200 \<or>
   (\<exists>i data t r. parseInt js param = Some i \<and> taskUpdateSchema js body = Some data \<and>
      getTask s i = Some (Some t) \<and> task_userId t = sub c \<and>
      fst (PATCH_tasks_id js c param body s) = (200, Json_task r) \<and>
      updateTask js c s i (updateData js data) = Some (r, snd (PATCH_tasks_id js c param body s)))"
proof (cases "parseInt js param")
  case None
  then show ?thesis by (simp add: PATCH_tasks_id_def)
next
  case i: (Some i)
  show ?thesis
  proof (cases "getTask s i")
    case None
    with i show ?thesis by (simp add: PATCH_tasks_id_def)
  next
    case found: (Some found)
    show ?thesis
    proof (cases found)
      case None
      with i found show ?thesis by (simp add: PATCH_tasks_id_def)
    next
      case (Some t)
      with found have t: "getTask s i = Some (Some t)" by simp
      show ?thesis
      proof (cases "task_userId t = sub c")
        case False
        with i t show ?thesis by (simp add: PATCH_tasks_id_def)
      next
        case own: True
        show ?thesis
        proof (cases "taskUpdateSchema js body")
          case None
          with i t own show ?thesis by (simp add: PATCH_tasks_id_def)
        next
          case d: (Some data)
          show ?thesis
          proof (cases "updateTask js c s i (updateData js data)")
            case None
            with i t own d show ?thesis by (simp add: PATCH_tasks_id_def)
          next
            case (Some a)
            with i t own d show ?thesis
              by (cases a) (simp add: PATCH_tasks_id_def)
          qed
        qed
      qed
    qed
  qed
qed

text \<open>
  C9. A request to update a task whose body does not set the status to
  \<^verbatim>\<open>completed\<close> leaves the completion time of every task as it was, so an update
  away from \<^verbatim>\<open>completed\<close> does not clear it; and every column whose key is absent from
  the body keeps its value, as do the id, the owner and the creation time.
\<close>

theorem patch_frame:
  assumes nc: "getProp body ''status'' \<noteq> Some (JStr ''completed'')"
    and i: "i < length (tasks s)"
  shows "let s' = snd (PATCH_tasks_id js c param body s); t = tasks s ! i; t' = tasks s' ! i in
           length (tasks s') = length (tasks s) \<and>
           task_id t' = task_id t \<and> task_userId t' = task_userId t \<and>
           task_createdAt t' = task_createdAt t \<and>
           task_completedAt t' = task_completedAt t \<and>
           (getProp body ''title'' = None \<longrightarrow> task_title t' = task_title t) \<and>
           (getProp body ''description'' = None \<longrightarrow> task_description t' = task_description t) \<and>
           (getProp body ''subject'' = None \<longrightarrow> task_subject t' = task_subject t) \<and>
           (getProp body ''priority'' = None \<longrightarrow> task_priority t' = task_priority t) \<and>
           (getProp body ''status'' = None \<longrightarrow> task_status t' = task_status t) \<and>
           (getProp body ''dueDate'' = None \<longrightarrow> task_dueDate t' = task_dueDate t) \<and>
           (getProp body ''estimatedMinutes'' = None \<longrightarrow>
              task_estimatedMinutes t' = task_estimatedMinutes t)"
proof -
  let ?s' = "snd (PATCH_tasks_id js c param body s)"
  from PATCH_tasks_id_cases [of js c param body s]
  consider (same) "?s' = s"
    | (upd) k data r where "taskUpdateSchema js body = Some data"
        "updateTask js c s k (updateData js data) = Some (r, ?s')"
    by blast
  then show ?thesis
  proof cases
    case same
    then show ?thesis by (simp add: Let_def)
  next
    case upd
    note ab = updateData_absent [OF upd(1)]
    from ab nc have st: "set_status (updateData js data) \<noteq> Some Completed" by blast
    from updateTask_Some [OF upd(2)] st
    have s': "?s' = s\<lparr>tasks := map (\<lambda>t. if task_id t = k then applySet js (updateData js data) t else t)
                                    (tasks s)\<rparr>"
      by simp
    have nth: "tasks ?s' ! i = (if task_id (tasks s ! i) = k
                                then applySet js (updateData js data) (tasks s ! i) else tasks s ! i)"
      using i by (simp add: s')
    have len: "length (tasks ?s') = length (tasks s)"
      by (simp add: s')
    show ?thesis
    proof (cases "task_id (tasks s ! i) = k")
      case False
      with nth len show ?thesis by (simp add: Let_def)
    next
      case True
      with nth have "tasks ?s' ! i = applySet js (updateData js data) (tasks s ! i)" by simp
      with len ab applySet_frame [of js "updateData js data" "tasks s ! i"] show ?thesis
        by (simp add: Let_def)
    qed
  qed
qed

text \<open>The half of C2 that holds: an update that is answered with 200 and sets the status
  to \<^verbatim>\<open>completed\<close> leaves the task completed, with the server's time as its completion
  time.\<close>

lemma patch_to_completed_stamps:
  assumes ok: "fst (fst (PATCH_tasks_id js c param body s)) = 200"
    and st: "getProp body ''status'' = Some (JStr ''completed'')"
  shows "\<exists>i t. parseInt js param = Some i \<and> t \<in> set (tasks (snd (PATCH_tasks_id js c param body s))) \<and>
           snd (fst (PATCH_tasks_id js c param body s)) = Json_task (Some t) \<and>
           task_id t = i \<and> task_status t = Completed \<and> task_completedAt t = Some (now c)"
proof -
  let ?r = "PATCH_tasks_id js c param body s"
  from PATCH_tasks_id_cases [of js c param body s] ok
  obtain i data t0 r where i: "parseInt js param = Some i"
    and d: "taskUpdateSchema js body = Some data"
    and t0: "getTask s i = Some (Some t0)"
    and b: "fst ?r = (200, Json_task r)"
    and u: "updateTask js c s i (updateData js data) = Some (r, snd ?r)"
    by blast
  have c: "set_status (updateData js data) = Some Completed"
    using taskUpdateSchema_completed [OF d st] by (simp add: updateData_def)
  let ?f = "\<lambda>t. if task_id t = i
      then applySet js ((updateData js data)\<lparr>set_completedAt := Some (now c)\<rparr>) t else t"
  from updateTask_Some [OF u] c have s': "tasks (snd ?r) = map ?f (tasks s)"
    by simp
  from u c have r: "r = first (filter (\<lambda>t. task_id t = i) (map ?f (tasks s)))"
    by (auto simp: updateTask_def Let_def split: if_splits)
  have id: "task_id (?f t) = task_id t" for t
    by (simp add: applySet_def)
  from t0 obtain rest where "filter (\<lambda>t. task_id t = i) (tasks s) = t0 # rest"
    by (auto simp: getTask_def first_def split: list.splits if_splits)
  then have "filter (\<lambda>t. task_id t = i) (map ?f (tasks s)) = map ?f (t0 # rest)"
    by (simp add: filter_map o_def id)
  with r have r': "r = Some (?f t0)" by (simp add: first_def)
  from t0 have t0i: "task_id t0 = i" and t0s: "t0 \<in> set (tasks s)"
    by (auto simp: getTask_def first_def split: list.splits if_splits dest: filter_eq_ConsD)
  have "?f t0 \<in> set (tasks (snd ?r))"
    unfolding s' set_map using t0s by (rule imageI)
  moreover have "task_status (?f t0) = Completed \<and> task_completedAt (?f t0) = Some (now c) \<and>
                 task_id (?f t0) = i"
    using t0i c by (simp add: applySet_def)
  ultimately show ?thesis
    using i b r' by (intro exI [of _ i] exI [of _ "?f t0"]) simp
qed

text \<open>The owner of the completed task of the example sets its status back to
  \<^verbatim>\<open>pending\<close>: the completion time 500 stays.\<close>

lemma patch_away_from_completed:
  "map (\<lambda>t. (task_status t, task_completedAt t))
       (tasks (snd (PATCH_tasks_id exampleRuntime bob ''1'' (JObj [(''status'', JStr ''pending'')])
                      bobsDb))) = [(Pending, Some 500)]"
  by code_simp

theorem patch_frame_witness:
  "getProp (JObj [(''status'', JStr ''pending'')] :: int json) ''status'' \<noteq> Some (JStr ''completed'') \<and>
   0 < length (tasks bobsDb) \<and>
   (let s' = snd (PATCH_tasks_id exampleRuntime bob ''1'' (JObj [(''status'', JStr ''pending'')]) bobsDb);
        t = tasks bobsDb ! 0; t' = tasks s' ! 0 in
      length (tasks s') = length (tasks bobsDb) \<and>
      task_id t' = task_id t \<and> task_userId t' = task_userId t \<and>
      task_createdAt t' = task_createdAt t \<and>
      task_completedAt t' = task_completedAt t \<and>
      (getProp (JObj [(''status'', JStr ''pending'')] :: int json) ''title'' = None \<longrightarrow>
         task_title t' = task_title t) \<and>
      (getProp (JObj [(''status'', JStr ''pending'')] :: int json) ''description'' = None \<longrightarrow>
         task_description t' = task_description t) \<and>
      (getProp (JObj [(''status'', JStr ''pending'')] :: int json) ''subject'' = None \<longrightarrow>
         task_subject t' = task_subject t) \<and>
      (getProp (JObj [(''status'', JStr ''pending'')] :: int json) ''priority'' = None \<longrightarrow>
         task_priority t' = task_priority t) \<and>
      (getProp (JObj [(''status'', JStr ''pending'')] :: int json) ''status'' = None \<longrightarrow>
         task_status t' = task_status t) \<and>
      (getProp (JObj [(''status'', JStr ''pending'')] :: int json) ''dueDate'' = None \<longrightarrow>
         task_dueDate t' = task_dueDate t) \<and>
      (getProp (JObj [(''status'', JStr ''pending'')] :: int json) ''estimatedMinutes'' = None \<longrightarrow>
         task_estimatedMinutes t' = task_estimatedMinutes t))"
proof -
  have h1: "getProp (JObj [(''status'', JStr ''pending'')] :: int json) ''status''
              \<noteq> Some (JStr ''completed'')"
    by simp
  have h2: "0 < length (tasks bobsDb)"
    by (simp add: bobsDb_def)
  show ?thesis
    by (rule conjI [OF h1 conjI [OF h2 patch_frame [OF h1 h2]]])
qed

section \<open>Pomodoro sessions\<close>

text \<open>A body that passes the schema and names, if any, a task of the caller by a number
  other than zero is answered with 201.\<close>

lemma POST_pomodoro_valid:
  assumes v: "pomodoroCreateSchema js body = Some data"
    and t: "\<forall>k. taskId data = Some (Some k) \<and> k \<noteq> 0 \<longrightarrow>
              (\<exists>t. getTask s k = Some (Some t) \<and> task_userId t = sub c)"
  shows "fst (fst (POST_pomodoro js c body s)) = 201"
proof -
  have "(case int_or_null (taskId data) of
           None \<Rightarrow> Some False
         | Some k \<Rightarrow> (case getTask s k of
                       None \<Rightarrow> None
                     | Some None \<Rightarrow> Some True
                     | Some (Some task) \<Rightarrow> Some (task_userId task \<noteq> sub c))) = Some False"
  proof (cases "int_or_null (taskId data)")
    case None
    then show ?thesis by simp
  next
    case (Some k)
    then have "taskId data = Some (Some k) \<and> k \<noteq> 0"
      by (cases "taskId data" rule: int_or_null.cases) (auto split: if_splits)
    with t Some show ?thesis by auto
  qed
  with v show ?thesis
    by (simp add: POST_pomodoro_def Let_def case_prod_unfold)
qed

lemma POST_pomodoro_created:
  assumes "fst (fst (POST_pomodoro js c body s)) = 201"
  shows "\<exists>data p. pomodoroCreateSchema js body = Some data \<and>
           createPomodoroSession c s
             \<lparr>ip_userId = sub c, ip_taskId = flatten (taskId data), ip_duration = duration data,
              ip_breakDuration = breakDuration data, ip_completed = completed data\<rparr>
             = (p, snd (POST_pomodoro js c body s)) \<and>
           fst (POST_pomodoro js c body s) = (201, Json_session p)"
  using assms
  by (auto simp: POST_pomodoro_def Let_def split: option.splits if_splits prod.splits)

text \<open>
  C7. Every request to record a session that is answered with 201 has added one session
  to the table, whose end time is the server's time of the request when the \<^verbatim>\<open>completed\<close>
  flag of the body is true, and \<^verbatim>\<open>NULL\<close> when it is false.
\<close>

theorem pomodoro_endedAt:
  assumes "fst (fst (POST_pomodoro js c body s)) = 201"
  shows "\<exists>p flag. getProp body ''completed'' = Some (JBool flag) \<and>
           snd (fst (POST_pomodoro js c body s)) = Json_session p \<and>
           pomodoroSessions (snd (POST_pomodoro js c body s)) = pomodoroSessions s @ [p] \<and>
           session_completed p = flag \<and>
           session_endedAt p = (if flag then Some (now c) else None)"
proof -
  from POST_pomodoro_created [OF assms] obtain data p
    where d: "pomodoroCreateSchema js body = Some data"
      and r: "createPomodoroSession c s
                \<lparr>ip_userId = sub c, ip_taskId = flatten (taskId data), ip_duration = duration data,
                 ip_breakDuration = breakDuration data, ip_completed = completed data\<rparr>
                = (p, snd (POST_pomodoro js c body s))"
      and b: "fst (POST_pomodoro js c body s) = (201, Json_session p)"
    by blast
  from r [symmetric] have "pomodoroSessions (snd (POST_pomodoro js c body s)) = pomodoroSessions s @ [p]"
    and "session_completed p = completed data"
    and "session_endedAt p = (if completed data then Some (now c) else None)"
    by (simp_all add: createPomodoroSession_def Let_def)
  with pomodoroCreateSchema_completed [OF d] b show ?thesis
    by auto
qed

theorem pomodoro_endedAt_witness:
  "fst (fst (POST_pomodoro exampleRuntime alice
      (JObj [(''duration'', JNum 25), (''breakDuration'', JNum 5), (''completed'', JBool True)])
      (emptyDb None))) = 201 \<and>
   (\<exists>p flag.
      getProp (JObj [(''duration'', JNum 25), (''breakDuration'', JNum 5), (''completed'', JBool True)]
                :: int json) ''completed'' = Some (JBool flag) \<and>
      snd (fst (POST_pomodoro exampleRuntime alice
        (JObj [(''duration'', JNum 25), (''breakDuration'', JNum 5), (''completed'', JBool True)])
        (emptyDb None))) = Json_session p \<and>
      pomodoroSessions (snd (POST_pomodoro exampleRuntime alice
        (JObj [(''duration'', JNum 25), (''breakDuration'', JNum 5), (''completed'', JBool True)])
        (emptyDb None))) = pomodoroSessions (emptyDb None) @ [p] \<and>
      session_completed p = flag \<and>
      session_endedAt p = (if flag then Some (now alice) else None))"
proof -
  have h: "fst (fst (POST_pomodoro exampleRuntime alice
      (JObj [(''duration'', JNum 25), (''breakDuration'', JNum 5), (''completed'', JBool True)])
      (emptyDb None))) = 201"
    by code_simp
  show ?thesis
    by (rule conjI [OF h pomodoro_endedAt [OF h]])
qed

text \<open>The two outcomes on the empty database: a completed session ends at the server's
  time 1000, an aborted one has no end time.\<close>

lemma session_end_examples:
  "map session_endedAt (pomodoroSessions (snd (POST_pomodoro exampleRuntime alice
      (JObj [(''duration'', JNum 25), (''breakDuration'', JNum 5), (''completed'', JBool True)])
      (emptyDb None)))) = [Some 1000]"
  "map session_endedAt (pomodoroSessions (snd (POST_pomodoro exampleRuntime alice
      (JObj [(''duration'', JNum 25), (''breakDuration'', JNum 5), (''completed'', JBool False)])
      (emptyDb None)))) = [None]"
  by code_simp+

text \<open>
  C10. A valid request to record a session whose \<^verbatim>\<open>taskId\<close> is the number zero is
  answered with 201 and stores a session that refers to task 0, whatever tasks the
  database holds: the task is not looked up.
\<close>

theorem pomodoro_taskId_zero:
  assumes v: "pomodoroCreateSchema js body = Some data"
    and t: "getProp body ''taskId'' = Some (JNum n)"
    and z: "Number_int js n = Some 0"
  shows "\<exists>p. POST_pomodoro js c body s =
               ((201, Json_session p),
                s\<lparr>pomodoroSessions := pomodoroSessions s @ [p],
                  seq_pomodoroSessions := seq_pomodoroSessions s + 1\<rparr>) \<and>
             session_taskId p = Some 0 \<and> session_userId p = sub c"
proof -
  from pomodoroCreateSchema_taskId [OF v] t z have "taskId data = Some (Some 0)"
    by simp
  with v show ?thesis
    by (simp add: POST_pomodoro_def createPomodoroSession_def Let_def)
qed

text \<open>In the example no task has the id 0, and the request succeeds.\<close>

theorem pomodoro_taskId_zero_witness:
  "pomodoroCreateSchema exampleRuntime
     (JObj [(''taskId'', JNum 0), (''duration'', JNum 25), (''breakDuration'', JNum 5),
            (''completed'', JBool False)])
     = Some \<lparr>taskId = Some (Some 0), duration = 25, breakDuration = 5, completed = False\<rparr> \<and>
   getProp (JObj [(''taskId'', JNum 0), (''duration'', JNum 25), (''breakDuration'', JNum 5),
                  (''completed'', JBool False)] :: int json) ''taskId'' = Some (JNum 0) \<and>
   Number_int exampleRuntime 0 = Some 0 \<and>
   getTask bobsDb 0 = Some None \<and>
   (\<exists>p. POST_pomodoro exampleRuntime alice
          (JObj [(''taskId'', JNum 0), (''duration'', JNum 25), (''breakDuration'', JNum 5),
                 (''completed'', JBool False)]) bobsDb =
          ((201, Json_session p),
           bobsDb\<lparr>pomodoroSessions := pomodoroSessions bobsDb @ [p],
                   seq_pomodoroSessions := seq_pomodoroSessions bobsDb + 1\<rparr>) \<and>
        session_taskId p = Some 0 \<and> session_userId p = sub alice)"
proof -
  let ?body = "JObj [(''taskId'', JNum 0), (''duration'', JNum 25), (''breakDuration'', JNum 5),
                     (''completed'', JBool False)] :: int json"
  have v: "pomodoroCreateSchema exampleRuntime ?body
             = Some \<lparr>taskId = Some (Some 0), duration = 25, breakDuration = 5, completed = False\<rparr>"
    by (simp add: pomodoroCreateSchema_def z_number_int_min_max_def exampleRuntime_def)
  have t: "getProp ?body ''taskId'' = Some (JNum 0)"
    by simp
  have z: "Number_int exampleRuntime 0 = Some 0"
    by (simp add: exampleRuntime_def)
  have a: "getTask bobsDb 0 = Some None"
    by (simp add: getTask_def int4_def first_def bobsDb_def)
  show ?thesis
    by (intro conjI v t z a pomodoro_taskId_zero [OF v t z])
qed

section \<open>Ownership of the resource a request names\<close>

text \<open>A lookup by id finds nothing exactly when the id is in the range of the column and
  no row has it.\<close>

lemma first_None: "first rows = None \<longleftrightarrow> rows = []"
  by (cases rows) (simp_all add: first_def)

lemma getTask_absent:
  "getTask s i = Some None \<longleftrightarrow> int4 i \<and> (\<forall>t \<in> set (tasks s). task_id t \<noteq> i)"
  by (simp add: getTask_def first_None filter_empty_conv)

lemma getFile_absent:
  "getFile s i = Some None \<longleftrightarrow> int4 i \<and> (\<forall>f \<in> set (fileUploads s). file_id f \<noteq> i)"
  by (simp add: getFile_def first_None filter_empty_conv)

lemma lookup_throws:
  assumes "\<not> int4 i"
  shows "getTask s i = None" and "getFile s i = None"
  using assms by (simp_all add: getTask_def getFile_def)

text \<open>
  C1, as the code has it. The requests that name a resource by id answer as follows when
  the resource is not the caller's, and leave the state as it is. For an id in the range
  of the 32-bit id columns, a task that is absent gives 404 and a task of another user
  403, on update and on delete, and the same holds for a file, on download and on
  delete. A notification and a recommendation give 404 in both cases and for every id,
  since they are searched among the caller's own rows. A session that refers to a task by
  a number in that range other than zero gives 403 when the task is absent as well as
  when it is another user's.
\<close>

theorem resource_guard:
  "(parseInt js param = Some i \<and> int4 i \<longrightarrow>
     (getTask s i = Some None \<longrightarrow>
        PATCH_tasks_id js c param body s = ((404, Message ''Task not found''), s) \<and>
        DELETE_tasks_id js c param s = ((404, Message ''Task not found''), s)) \<and>
     (\<forall>t. getTask s i = Some (Some t) \<and> task_userId t \<noteq> sub c \<longrightarrow>
        PATCH_tasks_id js c param body s = ((403, Message ''Access denied''), s) \<and>
        DELETE_tasks_id js c param s = ((403, Message ''Access denied''), s)) \<and>
     (getFile s i = Some None \<longrightarrow>
        GET_files_id_download js c param s = ((404, Message ''File not found''), s) \<and>
        DELETE_files_id js c param s = ((404, Message ''File not found''), s)) \<and>
     (\<forall>f. getFile s i = Some (Some f) \<and> file_userId f \<noteq> sub c \<longrightarrow>
        GET_files_id_download js c param s = ((403, Message ''Access denied''), s) \<and>
        DELETE_files_id js c param s = ((403, Message ''Access denied''), s))) \<and>
   (parseInt js param = Some i \<longrightarrow>
     ((\<forall>n \<in> set (notifications s). notif_id n = i \<longrightarrow> notif_userId n \<noteq> sub c) \<longrightarrow>
        PATCH_notifications_id_read js c param s = ((404, Message ''Notification not found''), s)) \<and>
     ((\<forall>r \<in> set (studyRecommendations s). rec_id r = i \<longrightarrow> rec_userId r \<noteq> sub c) \<longrightarrow>
        PATCH_recommendations_id_dismiss js c param s =
          ((404, Message ''Recommendation not found''), s))) \<and>
   (pomodoroCreateSchema js body = Some data \<and> taskId data = Some (Some k) \<and> k \<noteq> 0 \<and> int4 k \<longrightarrow>
     (getTask s k = Some None \<longrightarrow>
        POST_pomodoro js c body s = ((403, Message ''Task not found or access denied''), s)) \<and>
     (\<forall>t. getTask s k = Some (Some t) \<and> task_userId t \<noteq> sub c \<longrightarrow>
        POST_pomodoro js c body s = ((403, Message ''Task not found or access denied''), s)))"
proof -
  have tasks: "PATCH_tasks_id js c param body s = ((404, Message ''Task not found''), s) \<and>
        DELETE_tasks_id js c param s = ((404, Message ''Task not found''), s)"
    if "parseInt js param = Some i" "getTask s i = Some None"
    using that by (simp add: PATCH_tasks_id_def DELETE_tasks_id_def)
  have tasks': "PATCH_tasks_id js c param body s = ((403, Message ''Access denied''), s) \<and>
        DELETE_tasks_id js c param s = ((403, Message ''Access denied''), s)"
    if "parseInt js param = Some i" "getTask s i = Some (Some t)" "task_userId t \<noteq> sub c" for t
    using that by (simp add: PATCH_tasks_id_def DELETE_tasks_id_def)
  have files: "GET_files_id_download js c param s = ((404, Message ''File not found''), s) \<and>
        DELETE_files_id js c param s = ((404, Message ''File not found''), s)"
    if "parseInt js param = Some i" "getFile s i = Some None"
    using that by (simp add: GET_files_id_download_def DELETE_files_id_def)
  have files': "GET_files_id_download js c param s = ((403, Message ''Access denied''), s) \<and>
        DELETE_files_id js c param s = ((403, Message ''Access denied''), s)"
    if "parseInt js param = Some i" "getFile s i = Some (Some f)" "file_userId f \<noteq> sub c" for f
    using that by (simp add: GET_files_id_download_def DELETE_files_id_def)
  have notifs: "PATCH_notifications_id_read js c param s =
                  ((404, Message ''Notification not found''), s)"
    if "parseInt js param = Some i"
      "\<forall>n \<in> set (notifications s). notif_id n = i \<longrightarrow> notif_userId n \<noteq> sub c"
  proof -
    from that(2) have "find (\<lambda>n. notif_id n = i) (getNotifications s (sub c)) = None"
      unfolding getNotifications_def find_orderByDesc_None by blast
    with that(1) show ?thesis by (simp add: PATCH_notifications_id_read_def)
  qed
  have recs: "PATCH_recommendations_id_dismiss js c param s =
          ((404, Message ''Recommendation not found''), s)"
    if "parseInt js param = Some i"
      "\<forall>r \<in> set (studyRecommendations s). rec_id r = i \<longrightarrow> rec_userId r \<noteq> sub c"
  proof -
    from that(2) have "find (\<lambda>r. rec_id r = i) (getRecommendations s (sub c)) = None"
      unfolding getRecommendations_def find_orderByDesc_None by blast
    with that(1) show ?thesis by (simp add: PATCH_recommendations_id_dismiss_def)
  qed
  have pomo: "POST_pomodoro js c body s = ((403, Message ''Task not found or access denied''), s)"
    if "pomodoroCreateSchema js body = Some data" "taskId data = Some (Some k)" "k \<noteq> 0"
      "getTask s k = Some None"
    using that by (simp add: POST_pomodoro_def)
  have pomo': "POST_pomodoro js c body s = ((403, Message ''Task not found or access denied''), s)"
    if "pomodoroCreateSchema js body = Some data" "taskId data = Some (Some k)" "k \<noteq> 0"
      "getTask s k = Some (Some t)" "task_userId t \<noteq> sub c" for t
    using that by (simp add: POST_pomodoro_def)
  from tasks tasks' files files' notifs recs pomo pomo' show ?thesis
    by blast
qed

text \<open>
  The user \<^verbatim>\<open>alice\<close> names the rows of \<^verbatim>\<open>bob\<close> (id 1) and rows that do not exist
  (id 2); nothing changes.
\<close>

theorem resource_guard_witness:
  "int4 1 \<and> int4 2 \<and>
   getTask bobsDb 2 = Some None \<and> getFile bobsDb 2 = Some None \<and>
   PATCH_tasks_id exampleRuntime alice ''1'' (JObj [(''title'', JStr ''Mine'')]) bobsDb =
     ((403, Message ''Access denied''), bobsDb) \<and>
   DELETE_tasks_id exampleRuntime alice ''1'' bobsDb = ((403, Message ''Access denied''), bobsDb) \<and>
   GET_files_id_download exampleRuntime alice ''1'' bobsDb = ((403, Message ''Access denied''), bobsDb) \<and>
   DELETE_files_id exampleRuntime alice ''1'' bobsDb = ((403, Message ''Access denied''), bobsDb) \<and>
   PATCH_notifications_id_read exampleRuntime alice ''1'' bobsDb =
     ((404, Message ''Notification not found''), bobsDb) \<and>
   PATCH_recommendations_id_dismiss exampleRuntime alice ''1'' bobsDb =
     ((404, Message ''Recommendation not found''), bobsDb) \<and>
   PATCH_tasks_id exampleRuntime alice ''2'' (JObj [(''title'', JStr ''Mine'')]) bobsDb =
     ((404, Message ''Task not found''), bobsDb) \<and>
   DELETE_tasks_id exampleRuntime alice ''2'' bobsDb = ((404, Message ''Task not found''), bobsDb) \<and>
   GET_files_id_download exampleRuntime alice ''2'' bobsDb = ((404, Message ''File not found''), bobsDb) \<and>
   DELETE_files_id exampleRuntime alice ''2'' bobsDb = ((404, Message ''File not found''), bobsDb) \<and>
   PATCH_notifications_id_read exampleRuntime alice ''2'' bobsDb =
     ((404, Message ''Notification not found''), bobsDb) \<and>
   PATCH_recommendations_id_dismiss exampleRuntime alice ''2'' bobsDb =
     ((404, Message ''Recommendation not found''), bobsDb) \<and>
   POST_pomodoro exampleRuntime alice
     (JObj [(''taskId'', JNum 1), (''duration'', JNum 25), (''breakDuration'', JNum 5),
            (''completed'', JBool True)]) bobsDb =
     ((403, Message ''Task not found or access denied''), bobsDb)"
proof -
  let ?patch = "JObj [(''title'', JStr ''Mine'')] :: int json"
  let ?session = "JObj [(''taskId'', JNum 1), (''duration'', JNum 25), (''breakDuration'', JNum 5),
                        (''completed'', JBool True)] :: int json"
  let ?data = "\<lparr>taskId = Some (Some 1), duration = 25, breakDuration = 5, completed = True\<rparr>"
  have range: "int4 1" "int4 2"
    by (simp_all add: int4_def)
  have ids: "parseInt exampleRuntime ''1'' = Some 1" "parseInt exampleRuntime ''2'' = Some 2"
    by (simp_all add: exampleRuntime_def)
  have rows: "getTask bobsDb 1 = Some (Some (hd (tasks bobsDb)))"
    "task_userId (hd (tasks bobsDb)) \<noteq> sub alice"
    "getTask bobsDb 2 = Some None"
    "getFile bobsDb 1 = Some (Some (hd (fileUploads bobsDb)))"
    "file_userId (hd (fileUploads bobsDb)) \<noteq> sub alice"
    "getFile bobsDb 2 = Some None"
    by (simp_all add: getTask_def getFile_def int4_def first_def bobsDb_def alice_def)
  have lists: "\<forall>n \<in> set (notifications bobsDb). notif_id n = 1 \<longrightarrow> notif_userId n \<noteq> sub alice"
    "\<forall>n \<in> set (notifications bobsDb). notif_id n = 2 \<longrightarrow> notif_userId n \<noteq> sub alice"
    "\<forall>r \<in> set (studyRecommendations bobsDb). rec_id r = 1 \<longrightarrow> rec_userId r \<noteq> sub alice"
    "\<forall>r \<in> set (studyRecommendations bobsDb). rec_id r = 2 \<longrightarrow> rec_userId r \<noteq> sub alice"
    by (simp_all add: bobsDb_def alice_def)
  have session: "pomodoroCreateSchema exampleRuntime ?session = Some ?data"
    "taskId ?data = Some (Some 1)" "(1::int) \<noteq> 0"
    by (simp_all add: pomodoroCreateSchema_def z_number_int_min_max_def exampleRuntime_def)
  note foreign = resource_guard [where js = exampleRuntime and c = alice and s = bobsDb
      and param = "''1''" and i = 1 and body = ?patch]
  note absent = resource_guard [where js = exampleRuntime and c = alice and s = bobsDb
      and param = "''2''" and i = 2 and body = ?patch]
  note refers = resource_guard [where js = exampleRuntime and c = alice and s = bobsDb
      and body = ?session and data = ?data and k = 1]
  from foreign range ids rows lists
  have 1: "PATCH_tasks_id exampleRuntime alice ''1'' ?patch bobsDb =
             ((403, Message ''Access denied''), bobsDb)"
    and 2: "DELETE_tasks_id exampleRuntime alice ''1'' bobsDb = ((403, Message ''Access denied''), bobsDb)"
    and 3: "GET_files_id_download exampleRuntime alice ''1'' bobsDb =
             ((403, Message ''Access denied''), bobsDb)"
    and 4: "DELETE_files_id exampleRuntime alice ''1'' bobsDb = ((403, Message ''Access denied''), bobsDb)"
    and 5: "PATCH_notifications_id_read exampleRuntime alice ''1'' bobsDb =
             ((404, Message ''Notification not found''), bobsDb)"
    and 6: "PATCH_recommendations_id_dismiss exampleRuntime alice ''1'' bobsDb =
             ((404, Message ''Recommendation not found''), bobsDb)"
    by blast+
  from absent range ids rows lists
  have 7: "PATCH_tasks_id exampleRuntime alice ''2'' ?patch bobsDb =
             ((404, Message ''Task not found''), bobsDb)"
    and 8: "DELETE_tasks_id exampleRuntime alice ''2'' bobsDb = ((404, Message ''Task not found''), bobsDb)"
    and 9: "GET_files_id_download exampleRuntime alice ''2'' bobsDb =
             ((404, Message ''File not found''), bobsDb)"
    and 10: "DELETE_files_id exampleRuntime alice ''2'' bobsDb = ((404, Message ''File not found''), bobsDb)"
    and 11: "PATCH_notifications_id_read exampleRuntime alice ''2'' bobsDb =
             ((404, Message ''Notification not found''), bobsDb)"
    and 12: "PATCH_recommendations_id_dismiss exampleRuntime alice ''2'' bobsDb =
             ((404, Message ''Recommendation not found''), bobsDb)"
    by blast+
  from refers range session rows
  have 13: "POST_pomodoro exampleRuntime alice ?session bobsDb =
              ((403, Message ''Task not found or access denied''), bobsDb)"
    by blast
  from range rows(3) rows(6) 1 2 3 4 5 6 7 8 9 10 11 12 13 show ?thesis
    by (intro conjI)
qed

text \<open>
  C1 as stated fails where a session refers to a task that does not exist: the answer is
  403, not 404.
\<close>

theorem absent_task_reference_is_forbidden:
  "getTask bobsDb 2 = Some None \<and>
   POST_pomodoro exampleRuntime alice
     (JObj [(''taskId'', JNum 2), (''duration'', JNum 25), (''breakDuration'', JNum 5),
            (''completed'', JBool True)]) bobsDb =
   ((403, Message ''Task not found or access denied''), bobsDb)"
  by (simp add: getTask_def int4_def first_def bobsDb_def POST_pomodoro_def pomodoroCreateSchema_def
      z_number_int_min_max_def exampleRuntime_def alice_def)

text \<open>
  An id outside the range of the id columns makes the lookup throw: the request is
  answered with 500, and the state stays as it is.
\<close>

lemma id_out_of_range:
  assumes "parseInt js param = Some i" and "\<not> int4 i"
  shows "PATCH_tasks_id js c param body s = ((500, Message ''Failed to update task''), s)"
    and "DELETE_tasks_id js c param s = ((500, Message ''Failed to delete task''), s)"
    and "GET_files_id_download js c param s = ((500, Message ''Failed to download file''), s)"
    and "DELETE_files_id js c param s = ((500, Message ''Failed to delete file''), s)"
  using assms
  by (simp_all add: PATCH_tasks_id_def DELETE_tasks_id_def GET_files_id_download_def
      DELETE_files_id_def lookup_throws)

lemma taskId_out_of_range:
  assumes "pomodoroCreateSchema js body = Some data" and "taskId data = Some (Some k)"
    and "\<not> int4 k"
  shows "POST_pomodoro js c body s = ((500, Message ''Failed to create session''), s)"
proof -
  from assms(3) have "k \<noteq> 0" by (auto simp: int4_def)
  with assms show ?thesis
    by (simp add: POST_pomodoro_def lookup_throws)
qed

lemma id_out_of_range_examples:
  "PATCH_tasks_id exampleRuntime alice ''99999999999'' (JObj [(''title'', JStr ''Mine'')]) bobsDb =
     ((500, Message ''Failed to update task''), bobsDb)"
  "POST_pomodoro exampleRuntime alice
     (JObj [(''taskId'', JNum 2147483648), (''duration'', JNum 25), (''breakDuration'', JNum 5),
            (''completed'', JBool True)]) bobsDb =
     ((500, Message ''Failed to create session''), bobsDb)"
  by (simp_all add: PATCH_tasks_id_def POST_pomodoro_def pomodoroCreateSchema_def
      z_number_int_min_max_def getTask_def int4_def exampleRuntime_def)

section \<open>Recommendations\<close>

text \<open>
  C6. While the AI credential is not configured (the variable is unset or empty), a
  request to generate recommendations is answered with 503, and the state, with it the
  table of recommendations, is the one before the request.
\<close>

theorem generate_without_credential:
  assumes "\<not> configured (AI_INTEGRATIONS_OPENAI_API_KEY s)"
  shows "POST_recommendations_generate js c answer s =
           ((503, Message ''AI service is not configured''), s)"
  using assms by (simp add: POST_recommendations_generate_def)

theorem generate_without_credential_witness:
  "\<not> configured (AI_INTEGRATIONS_OPENAI_API_KEY (emptyDb None)) \<and>
   POST_recommendations_generate exampleRuntime alice (Content (Some ''[]'')) (emptyDb None) =
     ((503, Message ''AI service is not configured''), emptyDb None)"
proof -
  have h: "\<not> configured (AI_INTEGRATIONS_OPENAI_API_KEY (emptyDb None))"
    by (simp add: configured_def emptyDb_def)
  show ?thesis
    by (rule conjI [OF h generate_without_credential [OF h]])
qed

text \<open>The pattern takes everything from the first opening bracket to the last closing
  one.\<close>

lemma bracketMatch_examples:
  "bracketMatch ''[1] and [2]'' = Some ''[1] and [2]''"
  "bracketMatch ''see [1, 2] here'' = Some ''[1, 2]''"
  "bracketMatch ''] before [''  = None"
  "bracketMatch ''no brackets'' = None"
  by (simp_all add: bracketMatch_def)

text \<open>What the parsing statement of the handler gives, case by case.\<close>

lemma parseContent_cases:
  "JSON_parse js t = Some v \<Longrightarrow> t \<noteq> [] \<Longrightarrow> parseContent js (Some t) = Some v"
  "JSON_parse js t = None \<Longrightarrow> t \<noteq> [] \<Longrightarrow> bracketMatch t = None \<Longrightarrow>
     parseContent js (Some t) = Some (JArr [])"
  "JSON_parse js t = None \<Longrightarrow> t \<noteq> [] \<Longrightarrow> bracketMatch t = Some m \<Longrightarrow>
     parseContent js (Some t) = JSON_parse js m"
  by (simp_all add: parseContent_def)

text \<open>An answer that is not JSON and has no bracketed part gives the empty list and the
  status 200; nothing is stored.\<close>

lemma generate_without_brackets:
  assumes "configured (AI_INTEGRATIONS_OPENAI_API_KEY s)"
    and "JSON_parse js t = None" and "t \<noteq> []" and "bracketMatch t = None"
  shows "POST_recommendations_generate js c (Content (Some t)) s = ((200, Json_recommendations []), s)"
  using assms by (simp add: POST_recommendations_generate_def parseContent_cases)

text \<open>An answer that is not JSON and whose bracketed part is not JSON either makes the
  request fail.\<close>

lemma generate_with_unparsable_brackets:
  assumes "configured (AI_INTEGRATIONS_OPENAI_API_KEY s)"
    and "JSON_parse js t = None" and "t \<noteq> []" and "bracketMatch t = Some m"
    and "JSON_parse js m = None"
  shows "POST_recommendations_generate js c (Content (Some t)) s =
           ((500, Message ''Failed to generate recommendations''), s)"
  using assms by (simp add: POST_recommendations_generate_def parseContent_cases)

text \<open>
  C3, on the input where the code departs from it. The model answers
  \<^verbatim>\<open>Sure: [study more]\<close>. The text is not JSON; the pattern extracts \<^verbatim>\<open>[study more]\<close>,
  which is not JSON either; the second \<^verbatim>\<open>JSON.parse\<close> throws inside the \<^verbatim>\<open>catch\<close>
  block, and the request is answered with 500 instead of an empty list.
\<close>

theorem unparsable_bracket_substring_fails:
  "JSON_parse exampleRuntime ''Sure: [study more]'' = None \<and>
   bracketMatch ''Sure: [study more]'' = Some ''[study more]'' \<and>
   JSON_parse exampleRuntime ''[study more]'' = None \<and>
   POST_recommendations_generate exampleRuntime alice (Content (Some ''Sure: [study more]'')) bobsDb =
     ((500, Message ''Failed to generate recommendations''), bobsDb)"
  by (simp add: POST_recommendations_generate_def parseContent_def bracketMatch_def configured_def
      exampleRuntime_def sixCandidates_def bobsDb_def Let_def)

lemma orElse_simps:
  "orElse js None d = d"
  "orElse js (Some v) d = (if truthy js (Some v) then v else d)"
  by (simp_all add: orElse_def)

text \<open>The handler reads a candidate and the insert succeeds exactly when the candidate can
  be stored; the row is then the coerced form of the candidate, appended to the table.\<close>

lemma candidate_Some:
  "candidate js userId x = Some d \<longleftrightarrow>
     x \<noteq> JNull \<and>
     (\<exists>ti de.
        ToString js (orElse js (getProp x ''title'') (JStr ''Study Tip'')) = Some ti \<and>
        ToString js (orElse js (getProp x ''description'') (JStr ''Keep up the great work!'')) = Some de \<and>
        d = \<lparr>ir_userId = userId, ir_title = take 60 ti, ir_description = take 200 de,
              ir_subject = orElse js (getProp x ''subject'') JNull,
              ir_type = orElse js (getProp x ''type'') (JStr ''study_tip''),
              ir_priority = orElse js (getProp x ''priority'') (JStr ''medium''),
              ir_dismissed = False\<rparr>)"
  by (auto simp: candidate_def substring0_def bind_eq_Some_conv)

lemma createRecommendation_Some:
  "createRecommendation js c s d = Some (r, s') \<longleftrightarrow>
     (\<exists>ty pr.
        textParam js (ir_type d) = Some ty \<and> textParam js (ir_priority d) = Some pr \<and>
        pgText (ir_title d) \<and> pgText (ir_description d) \<and>
        pgTextOrNull (textParam js (ir_subject d)) \<and> pgText ty \<and> pgText pr \<and>
        r = \<lparr>rec_id = seq_studyRecommendations s, rec_userId = ir_userId d,
              rec_title = ir_title d, rec_description = ir_description d,
              rec_subject = textParam js (ir_subject d), rec_type = ty, rec_priority = pr,
              rec_dismissed = ir_dismissed d, rec_createdAt = dbNow c\<rparr> \<and>
        s' = s\<lparr>studyRecommendations := studyRecommendations s @ [r],
               seq_studyRecommendations := seq_studyRecommendations s + 1\<rparr>)"
  by (auto simp: createRecommendation_def Let_def split: option.splits)

lemma stored_coerced:
  assumes d: "candidate js userId x = Some d"
    and r: "createRecommendation js c s d = Some (r, s')"
  shows "coerced js userId x r"
    and "storable js x"
    and "s' = s\<lparr>studyRecommendations := studyRecommendations s @ [r],
                 seq_studyRecommendations := seq_studyRecommendations s + 1\<rparr>"
proof -
  from d obtain ti de where x: "x \<noteq> JNull"
    and ti: "ToString js (orElse js (getProp x ''title'') (JStr ''Study Tip'')) = Some ti"
    and de: "ToString js (orElse js (getProp x ''description'') (JStr ''Keep up the great work!'')) = Some de"
    and dd: "d = \<lparr>ir_userId = userId, ir_title = take 60 ti, ir_description = take 200 de,
              ir_subject = orElse js (getProp x ''subject'') JNull,
              ir_type = orElse js (getProp x ''type'') (JStr ''study_tip''),
              ir_priority = orElse js (getProp x ''priority'') (JStr ''medium''),
              ir_dismissed = False\<rparr>"
    unfolding candidate_Some by blast
  from r obtain ty pr where ty: "textParam js (ir_type d) = Some ty"
    and pr: "textParam js (ir_priority d) = Some pr"
    and ok: "pgText (ir_title d)" "pgText (ir_description d)"
      "pgTextOrNull (textParam js (ir_subject d))" "pgText ty" "pgText pr"
    and rr: "r = \<lparr>rec_id = seq_studyRecommendations s, rec_userId = ir_userId d,
              rec_title = ir_title d, rec_description = ir_description d,
              rec_subject = textParam js (ir_subject d), rec_type = ty, rec_priority = pr,
              rec_dismissed = ir_dismissed d, rec_createdAt = dbNow c\<rparr>"
    and s': "s' = s\<lparr>studyRecommendations := studyRecommendations s @ [r],
               seq_studyRecommendations := seq_studyRecommendations s + 1\<rparr>"
    unfolding createRecommendation_Some by blast
  from x ti de ty pr show "coerced js userId x r"
    by (simp add: coerced_def rr dd)
  from x ti de ty pr ok show "storable js x"
    by (simp add: storable_def dd)
  from s' show "s' = s\<lparr>studyRecommendations := studyRecommendations s @ [r],
                 seq_studyRecommendations := seq_studyRecommendations s + 1\<rparr>" .
qed

lemma storable_stored:
  assumes "storable js x"
  shows "\<exists>d r s'. candidate js userId x = Some d \<and> createRecommendation js c s d = Some (r, s')"
proof -
  from assms obtain ti de ty pr where x: "x \<noteq> JNull"
    and ti: "ToString js (orElse js (getProp x ''title'') (JStr ''Study Tip'')) = Some ti"
    and de: "ToString js (orElse js (getProp x ''description'') (JStr ''Keep up the great work!'')) = Some de"
    and ty: "textParam js (orElse js (getProp x ''type'') (JStr ''study_tip'')) = Some ty"
    and pr: "textParam js (orElse js (getProp x ''priority'') (JStr ''medium'')) = Some pr"
    and ok: "pgText (take 60 ti)" "pgText (take 200 de)"
      "pgTextOrNull (textParam js (orElse js (getProp x ''subject'') JNull))" "pgText ty" "pgText pr"
    by (auto simp: storable_def split: option.splits)
  let ?d = "\<lparr>ir_userId = userId, ir_title = take 60 ti, ir_description = take 200 de,
              ir_subject = orElse js (getProp x ''subject'') JNull,
              ir_type = orElse js (getProp x ''type'') (JStr ''study_tip''),
              ir_priority = orElse js (getProp x ''priority'') (JStr ''medium''),
              ir_dismissed = False\<rparr>"
  from x ti de have "candidate js userId x = Some ?d"
    by (simp add: candidate_Some)
  moreover from ty pr ok have "\<exists>r s'. createRecommendation js c s ?d = Some (r, s')"
    by (simp add: createRecommendation_Some)
  ultimately show ?thesis by blast
qed

lemma createAll_rows:
  "\<exists>new. studyRecommendations (snd (createAll js c xs created s)) = studyRecommendations s @ new \<and>
         notifications (snd (createAll js c xs created s)) = notifications s \<and>
         length new = length (takeWhile (storable js) xs) \<and>
         (\<forall>i < length new. coerced js (sub c) (xs ! i) (new ! i)) \<and>
         fst (createAll js c xs created s) =
           (if length new = length xs then Some (created @ new) else None)"
proof (induction xs arbitrary: created s)
  case Nil
  show ?case by simp
next
  case (Cons x xs)
  show ?case
  proof (cases "storable js x")
    case False
    have "createAll js c (x # xs) created s = (None, s)"
    proof (cases "candidate js (sub c) x")
      case None
      then show ?thesis by simp
    next
      case d: (Some d)
      show ?thesis
      proof (cases "createRecommendation js c s d")
        case None
        with d show ?thesis by simp
      next
        case (Some a)
        obtain r s' where "a = (r, s')" by (cases a)
        with Some stored_coerced(2) [OF d] False show ?thesis by blast
      qed
    qed
    with False show ?thesis by simp
  next
    case True
    from storable_stored [OF True, of "sub c" c s] obtain d r s1
      where d: "candidate js (sub c) x = Some d"
        and r: "createRecommendation js c s d = Some (r, s1)"
      by blast
    have step: "createAll js c (x # xs) created s = createAll js c xs (created @ [r]) s1"
      using d r by simp
    have s1: "studyRecommendations s1 = studyRecommendations s @ [r]"
      "notifications s1 = notifications s"
      by (simp_all add: stored_coerced(3) [OF d r])
    have head: "coerced js (sub c) x r"
      by (rule stored_coerced(1) [OF d r])
    from Cons.IH [of "created @ [r]" s1] obtain new
      where rows: "studyRecommendations (snd (createAll js c xs (created @ [r]) s1)) =
                     studyRecommendations s1 @ new"
        and notifs: "notifications (snd (createAll js c xs (created @ [r]) s1)) = notifications s1"
        and len: "length new = length (takeWhile (storable js) xs)"
        and each: "\<forall>i < length new. coerced js (sub c) (xs ! i) (new ! i)"
        and res: "fst (createAll js c xs (created @ [r]) s1) =
                    (if length new = length xs then Some ((created @ [r]) @ new) else None)"
      by blast
    have each': "\<forall>i < length (r # new). coerced js (sub c) ((x # xs) ! i) ((r # new) ! i)"
    proof (intro allI impI)
      fix i assume "i < length (r # new)"
      then show "coerced js (sub c) ((x # xs) ! i) ((r # new) ! i)"
        using head each by (cases i) simp_all
    qed
    show ?thesis
      apply (rule exI [of _ "r # new"])
      using rows notifs len each' res s1 step True by simp
  qed
qed

text \<open>
  C4, as the code has it. When the model's answer parses to a list of candidates, the
  handler goes through the first four in their order and stops at the first one that
  cannot be stored (a \<^verbatim>\<open>null\<close>, a title or description that cannot be made a string, a
  text that the database refuses). The candidates before that one, and no others, have
  rows, appended to the table in their order; with four or fewer candidates that can all
  be stored the answer is 200 with these rows, and else it is 500. Every stored row is
  the coerced form of its candidate: not dismissed, the title and the description cut to
  60 and 200 characters, a field that is missing or falsy replaced by its default, and a
  value that is present and truthy kept as its text, valid or not.
\<close>

theorem generate_persists_first_four:
  assumes k: "configured (AI_INTEGRATIONS_OPENAI_API_KEY s)"
    and p: "parseContent js text = Some (JArr xs)"
  shows "\<exists>new.
           studyRecommendations (snd (POST_recommendations_generate js c (Content text) s)) =
             studyRecommendations s @ new \<and>
           length new = length (takeWhile (storable js) (take 4 xs)) \<and>
           length new \<le> 4 \<and>
           (\<forall>i < length new. coerced js (sub c) (xs ! i) (new ! i)) \<and>
           fst (POST_recommendations_generate js c (Content text) s) =
             (if length new = min 4 (length xs)
              then (200, Json_recommendations new)
              else (500, Message ''Failed to generate recommendations''))"
proof -
  let ?run = "createAll js c (take 4 xs) [] s"
  have handler: "POST_recommendations_generate js c (Content text) s =
      (case fst ?run of
         None \<Rightarrow> ((500, Message ''Failed to generate recommendations''), snd ?run)
       | Some created \<Rightarrow> ((200, Json_recommendations created), snd ?run))"
    using k p
    by (simp add: POST_recommendations_generate_def case_prod_unfold split: option.splits)
  from createAll_rows [of js c "take 4 xs" "[]" s] obtain new
    where rows: "studyRecommendations (snd ?run) = studyRecommendations s @ new"
      and len: "length new = length (takeWhile (storable js) (take 4 xs))"
      and each: "\<forall>i < length new. coerced js (sub c) (take 4 xs ! i) (new ! i)"
      and res: "fst ?run = (if length new = length (take 4 xs) then Some ([] @ new) else None)"
    by blast
  have le: "length new \<le> length (take 4 xs)"
    unfolding len by (rule length_takeWhile_le)
  have each': "\<forall>i < length new. coerced js (sub c) (xs ! i) (new ! i)"
  proof (intro allI impI)
    fix i assume i: "i < length new"
    with le have "i < length (take 4 xs)" by simp
    then have "take 4 xs ! i = xs ! i" by simp
    with each i show "coerced js (sub c) (xs ! i) (new ! i)" by auto
  qed
  show ?thesis
    apply (rule exI [of _ new])
    using rows len le each' res
    by (simp add: handler min.commute)
qed

text \<open>
  The model answers with six candidates: a title of 66 characters; an empty title and the
  priority 0; the number 5 as title, with a subject, a type and a priority; an empty
  object; and two more. Four rows are stored: the first title is cut to 60 characters,
  the empty title and the priority 0 are replaced by the defaults, the number is stored
  as its text, the empty object gives the defaults throughout, and the fifth and the
  sixth candidate have no row.
\<close>

theorem generate_persists_first_four_witness:
  "configured (AI_INTEGRATIONS_OPENAI_API_KEY (emptyDb (Some ''key''))) \<and>
   parseContent exampleRuntime (Some sixCandidates) = Some (JArr sixCandidatesParsed) \<and>
   (\<exists>new.
      studyRecommendations (snd (POST_recommendations_generate exampleRuntime alice
         (Content (Some sixCandidates)) (emptyDb (Some ''key'')))) =
        studyRecommendations (emptyDb (Some ''key'')) @ new \<and>
      length new = length (takeWhile (storable exampleRuntime) (take 4 sixCandidatesParsed)) \<and>
      length new \<le> 4 \<and>
      (\<forall>i < length new. coerced exampleRuntime (sub alice) (sixCandidatesParsed ! i) (new ! i)) \<and>
      fst (POST_recommendations_generate exampleRuntime alice
         (Content (Some sixCandidates)) (emptyDb (Some ''key''))) =
        (if length new = min 4 (length sixCandidatesParsed)
         then (200, Json_recommendations new)
         else (500, Message ''Failed to generate recommendations''))) \<and>
   fst (fst (POST_recommendations_generate exampleRuntime alice
         (Content (Some sixCandidates)) (emptyDb (Some ''key'')))) = 200 \<and>
   map (\<lambda>r. (rec_title r, rec_description r, rec_subject r, rec_type r, rec_priority r,
             rec_dismissed r))
       (studyRecommendations (snd (POST_recommendations_generate exampleRuntime alice
          (Content (Some sixCandidates)) (emptyDb (Some ''key''))))) =
     [(''Review the chapter on linear algebra and redo every exercise'', ''Keep up the great work!'', None, ''review'', ''medium'', False),
      (''Study Tip'', ''Keep up the great work!'', None, ''study_tip'', ''medium'', False),
      (''5'', ''Keep up the great work!'', Some ''Math'', ''focus'', ''high'', False),
      (''Study Tip'', ''Keep up the great work!'', None, ''study_tip'', ''medium'', False)]"
proof -
  have k: "configured (AI_INTEGRATIONS_OPENAI_API_KEY (emptyDb (Some ''key'')))"
    by (simp add: configured_def emptyDb_def)
  have p: "parseContent exampleRuntime (Some sixCandidates) = Some (JArr sixCandidatesParsed)"
    by (simp add: parseContent_def exampleRuntime_def sixCandidates_def)
  have status: "fst (fst (POST_recommendations_generate exampleRuntime alice
         (Content (Some sixCandidates)) (emptyDb (Some ''key'')))) = 200"
    by code_simp
  have stored: "map (\<lambda>r. (rec_title r, rec_description r, rec_subject r, rec_type r, rec_priority r,
             rec_dismissed r))
       (studyRecommendations (snd (POST_recommendations_generate exampleRuntime alice
          (Content (Some sixCandidates)) (emptyDb (Some ''key''))))) =
     [(''Review the chapter on linear algebra and redo every exercise'', ''Keep up the great work!'', None, ''review'', ''medium'', False),
      (''Study Tip'', ''Keep up the great work!'', None, ''study_tip'', ''medium'', False),
      (''5'', ''Keep up the great work!'', Some ''Math'', ''focus'', ''high'', False),
      (''Study Tip'', ''Keep up the great work!'', None, ''study_tip'', ''medium'', False)]"
    by code_simp
  show ?thesis
    by (intro conjI k p generate_persists_first_four [OF k p] status stored)
qed

text \<open>The second of three candidates is \<^verbatim>\<open>null\<close>: the first has its row, the third has
  none, and the answer is 500.\<close>

lemma generate_stops_at_null:
  \<open>fst (POST_recommendations_generate exampleRuntime alice
          (Content (Some ''[{"title":"A"},null,{"title":"B"}]'')) (emptyDb (Some ''key''))) =
     (500, Message ''Failed to generate recommendations'')\<close>
  \<open>map rec_title
       (studyRecommendations (snd (POST_recommendations_generate exampleRuntime alice
          (Content (Some ''[{"title":"A"},null,{"title":"B"}]'')) (emptyDb (Some ''key''))))) =
     [''A'']\<close>
  by code_simp+

text \<open>A candidate whose title holds the character U+0000 cannot be stored.\<close>

lemma nul_title_is_refused: "\<not> storable js (JObj [(''title'', JStr [CHR 0x00])])"
  by (simp add: storable_def orElse_def pgText_def)

text \<open>
  C4 as stated fails on a candidate whose type and priority are strings outside the
  values the prompt asks for: they are stored as they came, not replaced by a default.
\<close>

theorem invalid_type_is_persisted:
  \<open>map (\<lambda>r. (rec_title r, rec_type r, rec_priority r))
       (studyRecommendations (snd (POST_recommendations_generate exampleRuntime alice
          (Content (Some ''[{"title":"Plan","type":"banana","priority":"urgent"}]''))
          (emptyDb (Some ''key''))))) =
     [(''Plan'', ''banana'', ''urgent'')] \<and>
   ''banana'' \<notin> set recommendationTypes \<and> ''urgent'' \<notin> set recommendationPriorities\<close>
  by (simp add: POST_recommendations_generate_def parseContent_def configured_def
      exampleRuntime_def emptyDb_def Let_def candidate_def orElse_def createRecommendation_def
      substring0_def alice_def recommendationTypes_def recommendationPriorities_def
      pgText_def pgTextOrNull_def)

section \<open>The flags \<^verbatim>\<open>dismissed\<close> and \<^verbatim>\<open>read\<close>\<close>

lemma kept_refl: "kept ident flag rows rows"
  by (simp add: kept_def)

lemma kept_trans:
  assumes "kept ident flag xs ys" and "kept ident flag ys zs"
  shows "kept ident flag xs zs"
proof -
  have "ident (zs ! i) = ident (xs ! i) \<and> (flag (xs ! i) \<longrightarrow> flag (zs ! i))" if "i < length xs" for i
  proof -
    from that assms(1) have "i < length ys" by (simp add: kept_def)
    with assms that show ?thesis by (simp add: kept_def)
  qed
  moreover from assms have "length xs \<le> length zs" by (simp add: kept_def)
  ultimately show ?thesis by (simp add: kept_def)
qed

lemma kept_append: "kept ident flag rows (rows @ new)"
  by (simp add: kept_def nth_append)

lemma kept_map:
  assumes "\<And>x. ident (f x) = ident x" and "\<And>x. flag x \<Longrightarrow> flag (f x)"
  shows "kept ident flag rows (map f rows)"
  using assms by (simp add: kept_def)

lemma flagsKept_refl: "flagsKept s s"
  by (simp add: flagsKept_def kept_refl)

lemma flagsKept_trans: "flagsKept s s' \<Longrightarrow> flagsKept s' s'' \<Longrightarrow> flagsKept s s''"
  unfolding flagsKept_def by (blast intro: kept_trans)

lemma flagsKept_same:
  "studyRecommendations s' = studyRecommendations s \<Longrightarrow> notifications s' = notifications s \<Longrightarrow>
     flagsKept s s'"
  by (simp add: flagsKept_def kept_refl)

lemma flagsKept_dismiss: "flagsKept s (dismissRecommendation s i)"
  by (simp add: flagsKept_def dismissRecommendation_def kept_refl kept_map)

lemma flagsKept_markRead: "flagsKept s (markNotificationRead s i)"
  by (simp add: flagsKept_def markNotificationRead_def kept_refl kept_map)

lemma flagsKept_markAll: "flagsKept s (markAllNotificationsRead s u)"
  by (simp add: flagsKept_def markAllNotificationsRead_def kept_refl kept_map)

lemma upsertProfile_tables:
  "studyRecommendations (snd (upsertProfile s u r)) = studyRecommendations s"
  "notifications (snd (upsertProfile s u r)) = notifications s"
  by (simp_all add: upsertProfile_def Let_def)

lemma updateProfileRole_tables:
  "studyRecommendations (snd (updateProfileRole s u r)) = studyRecommendations s"
  "notifications (snd (updateProfileRole s u r)) = notifications s"
  by (simp_all add: updateProfileRole_def Let_def)

lemma createFile_tables:
  assumes "createFile c s d = Some (f, s')"
  shows "studyRecommendations s' = studyRecommendations s"
    and "notifications s' = notifications s"
  using assms by (auto simp: createFile_def Let_def split: if_splits)

lemma GET_profile_kept: "flagsKept s (snd (GET_profile c s))"
  by (rule flagsKept_same)
     (simp_all add: GET_profile_def upsertProfile_tables case_prod_unfold Let_def
        split: option.splits)

lemma GET_lists_kept:
  "flagsKept s (snd (GET_tasks c s))" "flagsKept s (snd (GET_pomodoro c s))"
  "flagsKept s (snd (GET_recommendations c s))" "flagsKept s (snd (GET_files c s))"
  "flagsKept s (snd (GET_notifications c s))"
  by (simp_all add: GET_tasks_def GET_pomodoro_def GET_recommendations_def GET_files_def
      GET_notifications_def flagsKept_refl)

lemma POST_tasks_kept: "flagsKept s (snd (POST_tasks js c body s))"
proof (cases "fst (fst (POST_tasks js c body s)) = 201")
  case True
  from POST_tasks_created [OF True] show ?thesis
    by (auto intro!: flagsKept_same)
next
  case False
  then have "snd (POST_tasks js c body s) = s"
    by (auto simp: POST_tasks_def Let_def split: option.splits)
  then show ?thesis by (simp add: flagsKept_refl)
qed

lemma PATCH_tasks_id_kept: "flagsKept s (snd (PATCH_tasks_id js c param body s))"
proof -
  from PATCH_tasks_id_cases [of js c param body s]
  consider (same) "snd (PATCH_tasks_id js c param body s) = s"
    | (upd) k data r where
        "updateTask js c s k (updateData js data) = Some (r, snd (PATCH_tasks_id js c param body s))"
    by blast
  then show ?thesis
  proof cases
    case same
    then show ?thesis by (simp add: flagsKept_refl)
  next
    case upd
    have "studyRecommendations (snd (PATCH_tasks_id js c param body s)) = studyRecommendations s"
      and "notifications (snd (PATCH_tasks_id js c param body s)) = notifications s"
      by (subst updateTask_Some [OF upd], simp)+
    then show ?thesis by (rule flagsKept_same)
  qed
qed

lemma DELETE_tasks_id_kept: "flagsKept s (snd (DELETE_tasks_id js c param s))"
  by (rule flagsKept_same)
     (simp_all add: DELETE_tasks_id_def deleteTask_def split: option.splits)

lemma POST_pomodoro_kept: "flagsKept s (snd (POST_pomodoro js c body s))"
proof (cases "fst (fst (POST_pomodoro js c body s)) = 201")
  case True
  from POST_pomodoro_created [OF True] obtain d p
    where "createPomodoroSession c s d = (p, snd (POST_pomodoro js c body s))"
    by blast
  then have "snd (POST_pomodoro js c body s) = snd (createPomodoroSession c s d)"
    by simp
  then show ?thesis
    by (auto intro!: flagsKept_same simp: createPomodoroSession_def Let_def)
next
  case False
  then have "snd (POST_pomodoro js c body s) = s"
    by (auto simp: POST_pomodoro_def Let_def case_prod_unfold split: option.splits if_splits)
  then show ?thesis by (simp add: flagsKept_refl)
qed

lemma POST_recommendations_generate_kept:
  "flagsKept s (snd (POST_recommendations_generate js c answer s))"
proof -
  let ?r = "POST_recommendations_generate js c answer s"
  have "snd ?r = s \<or> (\<exists>xs. snd ?r = snd (createAll js c xs [] s))"
    by (auto simp: POST_recommendations_generate_def case_prod_unfold
        split: completion.splits option.splits)
  then show ?thesis
  proof
    assume "snd ?r = s"
    then show ?thesis by (simp add: flagsKept_refl)
  next
    assume "\<exists>xs. snd ?r = snd (createAll js c xs [] s)"
    then obtain xs where e: "snd ?r = snd (createAll js c xs [] s)" ..
    from createAll_rows [of js c xs "[]" s] obtain new
      where "studyRecommendations (snd ?r) = studyRecommendations s @ new"
        and "notifications (snd ?r) = notifications s"
      unfolding e by blast
    then show ?thesis
      by (simp add: flagsKept_def kept_append kept_refl)
  qed
qed

lemma PATCH_recommendations_id_dismiss_kept:
  "flagsKept s (snd (PATCH_recommendations_id_dismiss js c param s))"
  by (simp add: PATCH_recommendations_id_dismiss_def flagsKept_refl flagsKept_dismiss
      split: option.splits)

lemma POST_files_upload_kept: "flagsKept s (snd (POST_files_upload js c part taskIdField s))"
  by (rule flagsKept_same)
     (auto simp: POST_files_upload_def createFile_tables Let_def case_prod_unfold
        split: option.splits)

lemma GET_files_id_download_kept: "flagsKept s (snd (GET_files_id_download js c param s))"
  by (simp add: GET_files_id_download_def flagsKept_refl split: option.splits)

lemma DELETE_files_id_kept: "flagsKept s (snd (DELETE_files_id js c param s))"
  by (rule flagsKept_same)
     (simp_all add: DELETE_files_id_def deleteFile_def split: option.splits)

lemma PATCH_notifications_id_read_kept:
  "flagsKept s (snd (PATCH_notifications_id_read js c param s))"
  by (simp add: PATCH_notifications_id_read_def flagsKept_refl flagsKept_markRead
      split: option.splits)

lemma PATCH_notifications_read_all_kept:
  "flagsKept s (snd (PATCH_notifications_read_all c s))"
  by (simp add: PATCH_notifications_read_all_def flagsKept_markAll)

lemma GET_admin_kept:
  "flagsKept s (snd (GET_admin_stats c s))" "flagsKept s (snd (GET_admin_users c s))"
  by (simp_all add: GET_admin_stats_def GET_admin_users_def flagsKept_refl Let_def)

lemma PATCH_admin_users_userId_role_kept:
  "flagsKept s (snd (PATCH_admin_users_userId_role c userId body s))"
  by (rule flagsKept_same)
     (simp_all add: PATCH_admin_users_userId_role_def upsertProfile_tables
        updateProfileRole_tables case_prod_unfold Let_def split: option.splits)

lemma handle_kept: "flagsKept s (snd (handle js c r s))"
  by (cases r)
     (simp_all add: GET_profile_kept GET_lists_kept POST_tasks_kept PATCH_tasks_id_kept
        DELETE_tasks_id_kept POST_pomodoro_kept POST_recommendations_generate_kept
        PATCH_recommendations_id_dismiss_kept POST_files_upload_kept GET_files_id_download_kept
        DELETE_files_id_kept PATCH_notifications_id_read_kept PATCH_notifications_read_all_kept
        GET_admin_kept PATCH_admin_users_userId_role_kept)

text \<open>
  C5. Whatever requests the server handles, to any of its routes, by any callers and in
  any order, every recommendation and every notification that was in its table before is
  still at its place with its id afterwards, and one that was dismissed, or read, before
  is so afterwards.
\<close>

theorem flags_are_monotonic: "flagsKept s (run js requests s)"
proof (induction requests arbitrary: s)
  case Nil
  show ?case by (simp add: flagsKept_refl)
next
  case (Cons a requests)
  obtain c r where a: "a = (c, r)" by (cases a)
  from handle_kept [of s js c r] Cons.IH [of "snd (handle js c r s)"]
  show ?case
    unfolding a by (simp add: flagsKept_trans)
qed

text \<open>
  In the example the recommendation and the notification of \<^verbatim>\<open>bob\<close> are dismissed and
  read; after four further requests they still are.
\<close>

theorem flags_are_monotonic_witness:
  "0 < length (studyRecommendations bobsDb) \<and> rec_dismissed (studyRecommendations bobsDb ! 0) \<and>
   0 < length (notifications bobsDb) \<and> notif_read (notifications bobsDb ! 0) \<and>
   rec_dismissed (studyRecommendations (run exampleRuntime
     [(bob, Read_all_notifications),
      (alice, Generate_recommendations (Content (Some ''[]''))),
      (bob, Dismiss_recommendation ''1''),
      (alice, Read_notification ''1'')] bobsDb) ! 0) \<and>
   notif_read (notifications (run exampleRuntime
     [(bob, Read_all_notifications),
      (alice, Generate_recommendations (Content (Some ''[]''))),
      (bob, Dismiss_recommendation ''1''),
      (alice, Read_notification ''1'')] bobsDb) ! 0)"
proof -
  let ?requests = "[(bob, Read_all_notifications),
      (alice, Generate_recommendations (Content (Some ''[]''))),
      (bob, Dismiss_recommendation ''1''),
      (alice, Read_notification ''1'')]"
  have h: "0 < length (studyRecommendations bobsDb)" "rec_dismissed (studyRecommendations bobsDb ! 0)"
    "0 < length (notifications bobsDb)" "notif_read (notifications bobsDb ! 0)"
    by (simp_all add: bobsDb_def)
  from flags_are_monotonic [of bobsDb exampleRuntime ?requests]
  have "kept rec_id rec_dismissed (studyRecommendations bobsDb)
          (studyRecommendations (run exampleRuntime ?requests bobsDb))"
    and "kept notif_id notif_read (notifications bobsDb)
          (notifications (run exampleRuntime ?requests bobsDb))"
    by (simp_all add: flagsKept_def)
  with h have "rec_dismissed (studyRecommendations (run exampleRuntime ?requests bobsDb) ! 0)"
    and "notif_read (notifications (run exampleRuntime ?requests bobsDb) ! 0)"
    unfolding kept_def by blast+
  with h show ?thesis
    by (intro conjI)
qed

end
